theory Spec2Isabelle
  imports Main
begin

section \<open>Data model\<close>

text \<open>
  Modelled from the spec: the row types of the package \<^verbatim>\<open>models\<close> (user, factor,
  challenge, session, audit entry) are not among the sources. Their fields are the ones
  the handlers of \<^verbatim>\<open>api/mfa.go\<close> read and write and section 3 of the spec lists. A
  row is a record, a table is a list of rows, and the database is a record of tables.
  Identifiers are opaque strings. Times are nanoseconds, as in Go's \<^verbatim>\<open>time\<close>
  package; the absent verification time (a nil pointer) is \<open>None\<close>. The assurance
  level of a session is what \<^verbatim>\<open>session.GetAAL()\<close> returns, and the factor of a session
  is the one its last grant recorded (\<^verbatim>\<open>GrantParams.FactorID\<close>).
\<close>

type_synonym uuid = string

datatype AuthenticatorAssuranceLevel = AAL1 | AAL2

record User =
  User_ID :: uuid
  User_IsSSOUser :: bool
  User_Email :: string

record Factor =
  Factor_ID :: uuid
  Factor_UserID :: uuid
  Factor_FriendlyName :: string
  Factor_FactorType :: string
  Factor_Status :: string
  Factor_Secret :: string

record Challenge =
  Challenge_ID :: uuid
  Challenge_FactorID :: uuid
  Challenge_IPAddress :: string
  Challenge_CreatedAt :: int
  Challenge_VerifiedAt :: "int option"

record WebauthnConfig =
  RPDisplayName :: string
  RPID :: string
  RPOrigin :: string
  RPIcon :: string

type_synonym SessionData = string
type_synonym CeremonyOptions = string
type_synonym ParsedResponse = string
type_synonym Credential = string

record Session =
  Session_ID :: uuid
  Session_UserID :: uuid
  Session_AAL :: AuthenticatorAssuranceLevel
  Session_FactorID :: "uuid option"
  WebauthnConfiguration :: "WebauthnConfig option"
  WebauthnRegistrationSession :: "SessionData option"
  WebauthnLoginSession :: "SessionData option"

datatype AuditAction =
  EnrollFactorAction | CreateChallengeAction | VerifyFactorAction | UnenrollFactorAction

record AuditLogEntry =
  Audit_Actor :: uuid
  Audit_Action :: AuditAction
  Audit_IPAddress :: string
  Audit_Traits :: "(string \<times> string) list"

record DB =
  DB_factors :: "Factor list"
  DB_challenges :: "Challenge list"
  DB_sessions :: "Session list"
  DB_users :: "User list"
  DB_audit_log :: "AuditLogEntry list"

text \<open>The two values of \<^verbatim>\<open>models.FactorState\<close> and the constant \<^verbatim>\<open>models.TOTP\<close>.\<close>

definition FactorStateUnverified :: string where
  "FactorStateUnverified = ''unverified''"

definition FactorStateVerified :: string where
  "FactorStateVerified = ''verified''"

definition TOTP :: string where
  "TOTP = ''totp''"

subsection \<open>Requests, configuration and collaborators\<close>

record EnrollFactorParams =
  FriendlyName :: string
  FactorType :: string
  Issuer :: string

record VerifyFactorParams =
  ChallengeID :: uuid
  Code :: string

text \<open>
  What a handler reads from the request and its context: the user, factor and session put
  there by the middleware, the remote address, the address \<^verbatim>\<open>utilities.GetIPAddress\<close>
  returns and the bytes \<^verbatim>\<open>getBodyBytes\<close> returns (\<open>None\<close> when reading fails). A
  handler that dispatches to a WebAuthn handler has called \<^verbatim>\<open>getBodyBytes\<close> before the
  WebAuthn handler calls it again; both calls return the same bytes.
\<close>

record Request =
  getUser :: User
  getFactor :: Factor
  getSession :: Session
  RemoteAddr :: string
  GetIPAddress :: string
  getBodyBytes :: "string option"

text \<open>
  The configuration fields the handlers read. \<open>MaxEnrolledFactors\<close> is the value of
  \<^verbatim>\<open>int(config.MFA.MaxEnrolledFactors)\<close> and \<open>ChallengeExpiryDuration\<close> the value of
  \<^verbatim>\<open>time.Duration(config.MFA.ChallengeExpiryDuration)\<close>, a 64-bit count of seconds.
\<close>

record GlobalConfiguration =
  SiteURL :: string
  MaxEnrolledFactors :: int
  MaxVerifiedFactors :: int
  ChallengeExpiryDuration :: int

text \<open>The calls into the storage layer, one name per call site kind; each may fail.\<close>

datatype StorageCall =
  FindFactorsByUser_call | CreateFactor_call | UpdateWebauthnConfiguration_call
  | NewAuditLogEntry_call | CreateChallenge_call | UpdateWebauthnLoginSession_call
  | UpdateWebauthnRegistrationSession_call | FindChallengeByChallengeID_call
  | DestroyChallenge_call | ChallengeVerify_call | UpdateStatus_call | FindUserByID_call
  | updateMFASessionAndClaims_call | InvalidateSessionsWithAALLessThan_call
  | DeleteUnverifiedFactors_call | DestroyFactor_call | DowngradeSessionsToAAL1_call

text \<open>
  The answers of the collaborators are the fields of the record \<open>World\<close>: the clock,
  identifier generation, the JSON decoder, the URL parser, the TOTP and QR libraries,
  the WebAuthn library, token minting and cookie writing, and which storage calls fail.
  A collaborator that can fail answers \<open>None\<close> for its error. The two parsers of the
  WebAuthn library say what they make of the bytes they read from a stream.
\<close>

record World =
  now :: int
  NewV4 :: "uuid option"
  fails :: "StorageCall \<Rightarrow> bool"
  unmarshalEnroll :: "string \<Rightarrow> EnrollFactorParams option"
  unmarshalVerify :: "string \<Rightarrow> VerifyFactorParams option"
  unmarshalCredential :: "string \<Rightarrow> bool"
  ParseRequestURI :: "string \<Rightarrow> string option"
  totp_Generate :: "string \<Rightarrow> string \<Rightarrow> (string \<times> string) option"
  WriteQrSVG :: "string \<Rightarrow> string option"
  totp_Validate :: "string \<Rightarrow> string \<Rightarrow> bool"
  webauthn_New :: "WebauthnConfig \<Rightarrow> WebauthnConfig option"
  mapstructure_Decode :: "WebauthnConfig option \<Rightarrow> WebauthnConfig option"
  BeginLogin :: "WebauthnConfig \<Rightarrow> User \<Rightarrow> (CeremonyOptions \<times> SessionData) option"
  BeginRegistration :: "WebauthnConfig \<Rightarrow> User \<Rightarrow> (CeremonyOptions \<times> SessionData) option"
  ParseCredentialCreationResponseBody :: "string \<Rightarrow> ParsedResponse option"
  ParseCredentialRequestResponseBody :: "string \<Rightarrow> ParsedResponse option"
  CreateCredential :: "WebauthnConfig \<Rightarrow> User \<Rightarrow> SessionData \<Rightarrow> ParsedResponse option \<Rightarrow> Credential option"
  ValidateLogin :: "WebauthnConfig \<Rightarrow> User \<Rightarrow> SessionData \<Rightarrow> ParsedResponse \<Rightarrow> Credential option"
  issueToken :: "User \<Rightarrow> uuid \<Rightarrow> string"
  setCookieTokens :: "string \<Rightarrow> string option"

subsection \<open>Errors and responses\<close>

text \<open>
  Modelled from the spec: the error constructors of the package \<^verbatim>\<open>api\<close> are declared
  outside \<^verbatim>\<open>api/mfa.go\<close>; their status codes are those of section 6. An error is an
  HTTP error with its status code and message, an error of the storage layer returned
  as it is, or an error of the WebAuthn library returned as it is. A response is what
  the handler hands to \<^verbatim>\<open>sendJSON\<close> with status 200; writing it is taken to succeed.
\<close>

datatype apiError = HTTPError nat string | StorageError StorageCall | EngineError string

definition internalServerError :: "string \<Rightarrow> apiError" where
  "internalServerError msg = HTTPError 500 msg"

definition badRequestError :: "string \<Rightarrow> apiError" where
  "badRequestError msg = HTTPError 400 msg"

definition forbiddenError :: "string \<Rightarrow> apiError" where
  "forbiddenError msg = HTTPError 403 msg"

definition notFoundError :: "string \<Rightarrow> apiError" where
  "notFoundError msg = HTTPError 404 msg"

definition unprocessableEntityError :: "string \<Rightarrow> apiError" where
  "unprocessableEntityError msg = HTTPError 422 msg"

record TOTPObject =
  QRCode :: string
  Secret :: string
  URI :: string

datatype Response =
  EnrollFactorResponse uuid string TOTPObject
  | FactorJSON Factor
  | ChallengeFactorResponse uuid int
  | OptionsJSON CeremonyOptions
  | TokenJSON string
  | EmptyStringJSON
  | UnenrollFactorResponse uuid

type_synonym Outcome = "DB \<times> (apiError + Response)"

section \<open>The storage layer\<close>

text \<open>
  Every definition of this section stands for code of the repository outside
  \<^verbatim>\<open>api/mfa.go\<close>. A storage call fails when the world says so and otherwise does to
  its table what sections 2 to 4 of the spec say.
\<close>

text \<open>
  Modelled from the spec: \<^verbatim>\<open>storage.Connection.Transaction\<close> is not among the
  sources. A transaction runs its body on the database; when the body returns an error
  nothing of what it wrote is kept (section 5: the mutations of one operation commit or
  roll back together). The value next to the database is what the body assigned to the
  variables of the handler.
\<close>

definition Transaction :: "DB \<Rightarrow> (DB \<Rightarrow> apiError + DB \<times> 'a) \<Rightarrow> DB \<times> (apiError + 'a)" where
  "Transaction db body =
     (case body db of Inl terr \<Rightarrow> (db, Inl terr) | Inr (tx, v) \<Rightarrow> (tx, Inr v))"

text \<open>
  Sequencing inside a transaction body, \<^verbatim>\<open>if terr := step; terr != nil { return terr }\<close>:
  the first error ends the body.
\<close>

definition andThen :: "apiError + 'a \<Rightarrow> ('a \<Rightarrow> apiError + 'b) \<Rightarrow> apiError + 'b" where
  "andThen m f = (case m of Inl terr \<Rightarrow> Inl terr | Inr v \<Rightarrow> f v)"

text \<open>
  Modelled from the spec: \<^verbatim>\<open>tx.Create\<close> on a factor is not among the sources. It
  adds the row to the factor table, or fails as the world says.
\<close>

definition Create_Factor :: "World \<Rightarrow> Factor \<Rightarrow> DB \<Rightarrow> apiError + DB" where
  "Create_Factor w f tx =
     (if fails w CreateFactor_call then Inl (StorageError CreateFactor_call)
      else Inr (tx\<lparr>DB_factors := DB_factors tx @ [f]\<rparr>))"

text \<open>
  Modelled from the spec: \<^verbatim>\<open>tx.Create\<close> on a challenge is not among the sources.
  It adds the row to the challenge table.
\<close>

definition Create_Challenge :: "World \<Rightarrow> Challenge \<Rightarrow> DB \<Rightarrow> apiError + DB" where
  "Create_Challenge w c tx =
     (if fails w CreateChallenge_call then Inl (StorageError CreateChallenge_call)
      else Inr (tx\<lparr>DB_challenges := DB_challenges tx @ [c]\<rparr>))"

text \<open>
  Modelled from the spec: \<^verbatim>\<open>tx.Destroy\<close> on a challenge is not among the sources.
  It deletes the rows with the identifier of the challenge.
\<close>

definition Destroy_Challenge :: "World \<Rightarrow> Challenge \<Rightarrow> DB \<Rightarrow> apiError + DB" where
  "Destroy_Challenge w c tx =
     (if fails w DestroyChallenge_call then Inl (StorageError DestroyChallenge_call)
      else Inr (tx\<lparr>DB_challenges := filter (\<lambda>x. Challenge_ID x \<noteq> Challenge_ID c) (DB_challenges tx)\<rparr>))"

text \<open>
  Modelled from the spec: \<^verbatim>\<open>tx.Destroy\<close> on a factor is not among the sources. It
  deletes the rows with the identifier of the factor.
\<close>

definition Destroy_Factor :: "World \<Rightarrow> Factor \<Rightarrow> DB \<Rightarrow> apiError + DB" where
  "Destroy_Factor w f tx =
     (if fails w DestroyFactor_call then Inl (StorageError DestroyFactor_call)
      else Inr (tx\<lparr>DB_factors := filter (\<lambda>x. Factor_ID x \<noteq> Factor_ID f) (DB_factors tx)\<rparr>))"

text \<open>
  Modelled from the spec: \<^verbatim>\<open>models.NewAuditLogEntry\<close> is not among the sources. It
  appends an entry with the acting user, the action, the address and the traits.
\<close>

definition NewAuditLogEntry ::
  "World \<Rightarrow> Request \<Rightarrow> User \<Rightarrow> AuditAction \<Rightarrow> string \<Rightarrow> (string \<times> string) list \<Rightarrow> DB \<Rightarrow> apiError + DB" where
  "NewAuditLogEntry w r user action ip traits tx =
     (if fails w NewAuditLogEntry_call then Inl (StorageError NewAuditLogEntry_call)
      else Inr (tx\<lparr>DB_audit_log := DB_audit_log tx @
             [\<lparr>Audit_Actor = User_ID user, Audit_Action = action,
               Audit_IPAddress = ip, Audit_Traits = traits\<rparr>]\<rparr>))"

text \<open>
  Modelled from the spec: \<^verbatim>\<open>models.FindFactorsByUser\<close> is not among the sources.
  It reads the factors of the user from the factor table.
\<close>

definition FindFactorsByUser :: "World \<Rightarrow> DB \<Rightarrow> User \<Rightarrow> apiError + Factor list" where
  "FindFactorsByUser w db user =
     (if fails w FindFactorsByUser_call then Inl (StorageError FindFactorsByUser_call)
      else Inr (filter (\<lambda>f. Factor_UserID f = User_ID user) (DB_factors db)))"

text \<open>
  Modelled from the spec: \<^verbatim>\<open>models.FindChallengeByChallengeID\<close> and
  \<^verbatim>\<open>models.IsNotFoundError\<close> are not among the sources. The lookup returns the first
  row with the identifier; when there is none it returns the not-found error, which is
  \<open>Inl None\<close> here and whose text is taken to be \<open>Challenge not found\<close>.
\<close>

definition FindChallengeByChallengeID :: "World \<Rightarrow> DB \<Rightarrow> uuid \<Rightarrow> apiError option + Challenge" where
  "FindChallengeByChallengeID w db cid =
     (if fails w FindChallengeByChallengeID_call
      then Inl (Some (StorageError FindChallengeByChallengeID_call))
      else (case find (\<lambda>c. Challenge_ID c = cid) (DB_challenges db) of
              None \<Rightarrow> Inl None | Some c \<Rightarrow> Inr c))"

text \<open>
  Modelled from the spec: \<^verbatim>\<open>models.FindUserByID\<close> is not among the sources. It reads
  the user row again; a missing row is an error.
\<close>

definition FindUserByID :: "World \<Rightarrow> DB \<Rightarrow> uuid \<Rightarrow> apiError + User" where
  "FindUserByID w tx uid =
     (if fails w FindUserByID_call then Inl (StorageError FindUserByID_call)
      else (case find (\<lambda>u. User_ID u = uid) (DB_users tx) of
              None \<Rightarrow> Inl (StorageError FindUserByID_call) | Some u \<Rightarrow> Inr u))"

text \<open>
  Modelled from the spec: \<^verbatim>\<open>challenge.Verify\<close> is not among the sources. Marking a
  challenge verified sets its verification time (step 2 of section 4.3).
\<close>

definition Challenge_Verify :: "World \<Rightarrow> Challenge \<Rightarrow> DB \<Rightarrow> apiError + DB" where
  "Challenge_Verify w c tx =
     (if fails w ChallengeVerify_call then Inl (StorageError ChallengeVerify_call)
      else Inr (tx\<lparr>DB_challenges :=
             map (\<lambda>x. if Challenge_ID x = Challenge_ID c
                      then x\<lparr>Challenge_VerifiedAt := Some (now w)\<rparr> else x) (DB_challenges tx)\<rparr>))"

text \<open>
  Modelled from the spec: \<^verbatim>\<open>factor.UpdateStatus\<close> is not among the sources. It
  writes the status into the rows of the factor.
\<close>

definition Factor_UpdateStatus :: "World \<Rightarrow> Factor \<Rightarrow> string \<Rightarrow> DB \<Rightarrow> apiError + DB" where
  "Factor_UpdateStatus w f st tx =
     (if fails w UpdateStatus_call then Inl (StorageError UpdateStatus_call)
      else Inr (tx\<lparr>DB_factors :=
             map (\<lambda>x. if Factor_ID x = Factor_ID f then x\<lparr>Factor_Status := st\<rparr> else x)
                 (DB_factors tx)\<rparr>))"

text \<open>
  Modelled from the spec: \<^verbatim>\<open>updateMFASessionAndClaims\<close> is not among the sources.
  It elevates the calling session to AAL2 (step 5 of section 4.3), recording the factor
  of the grant; the new access credential comes from the token collaborator.
\<close>

definition updateMFASessionAndClaims ::
  "World \<Rightarrow> Request \<Rightarrow> User \<Rightarrow> uuid \<Rightarrow> DB \<Rightarrow> apiError + DB \<times> string" where
  "updateMFASessionAndClaims w r user fid tx =
     (if fails w updateMFASessionAndClaims_call
      then Inl (StorageError updateMFASessionAndClaims_call)
      else Inr (tx\<lparr>DB_sessions :=
             map (\<lambda>s. if Session_ID s = Session_ID (getSession r)
                      then s\<lparr>Session_AAL := AAL2, Session_FactorID := Some fid\<rparr> else s)
                 (DB_sessions tx)\<rparr>, issueToken w user fid))"

text \<open>
  Modelled from the spec: the order of the assurance levels, AAL1 below AAL2.
\<close>

definition aal_less :: "AuthenticatorAssuranceLevel \<Rightarrow> AuthenticatorAssuranceLevel \<Rightarrow> bool" where
  "aal_less a b = (a = AAL1 \<and> b = AAL2)"

text \<open>
  Modelled from the spec: \<^verbatim>\<open>models.InvalidateSessionsWithAALLessThan\<close> is not
  among the sources. Invalidation removes the sessions of the user whose level is below
  the given one (step 7 of section 4.3).
\<close>

definition InvalidateSessionsWithAALLessThan ::
  "World \<Rightarrow> uuid \<Rightarrow> AuthenticatorAssuranceLevel \<Rightarrow> DB \<Rightarrow> apiError + DB" where
  "InvalidateSessionsWithAALLessThan w uid level tx =
     (if fails w InvalidateSessionsWithAALLessThan_call
      then Inl (StorageError InvalidateSessionsWithAALLessThan_call)
      else Inr (tx\<lparr>DB_sessions :=
             filter (\<lambda>s. \<not> (Session_UserID s = uid \<and> aal_less (Session_AAL s) level))
                    (DB_sessions tx)\<rparr>))"

text \<open>
  Modelled from the spec: \<^verbatim>\<open>models.DeleteUnverifiedFactors\<close> is not among the
  sources. It deletes the unverified factors of the user (step 8 of section 4.3).
\<close>

definition DeleteUnverifiedFactors :: "World \<Rightarrow> User \<Rightarrow> DB \<Rightarrow> apiError + DB" where
  "DeleteUnverifiedFactors w user tx =
     (if fails w DeleteUnverifiedFactors_call
      then Inl (StorageError DeleteUnverifiedFactors_call)
      else Inr (tx\<lparr>DB_factors :=
             filter (\<lambda>f. \<not> (Factor_UserID f = User_ID user \<and> Factor_Status f = FactorStateUnverified))
                    (DB_factors tx)\<rparr>))"

text \<open>
  Modelled from the spec: \<^verbatim>\<open>factor.DowngradeSessionsToAAL1\<close> is not among the
  sources. It sets the sessions tied to the factor, those whose grant recorded it, to
  AAL1 (section 4.4).
\<close>

definition DowngradeSessionsToAAL1 :: "World \<Rightarrow> Factor \<Rightarrow> DB \<Rightarrow> apiError + DB" where
  "DowngradeSessionsToAAL1 w f tx =
     (if fails w DowngradeSessionsToAAL1_call
      then Inl (StorageError DowngradeSessionsToAAL1_call)
      else Inr (tx\<lparr>DB_sessions :=
             map (\<lambda>s. if Session_FactorID s = Some (Factor_ID f)
                      then s\<lparr>Session_AAL := AAL1, Session_FactorID := None\<rparr> else s)
                 (DB_sessions tx)\<rparr>))"

text \<open>
  Modelled from the spec: the update of one column of the session row, shared by the
  three methods below (sections 3 and 4.2: ceremony state is overwritten).
\<close>

definition update_session :: "Session \<Rightarrow> (Session \<Rightarrow> Session) \<Rightarrow> DB \<Rightarrow> DB" where
  "update_session session upd tx =
     tx\<lparr>DB_sessions := map (\<lambda>s. if Session_ID s = Session_ID session then upd s else s) (DB_sessions tx)\<rparr>"

text \<open>
  Modelled from the spec: \<^verbatim>\<open>session.UpdateWebauthnConfiguration\<close> is not among the
  sources. It stores the relying-party configuration on the session row.
\<close>

definition UpdateWebauthnConfiguration :: "World \<Rightarrow> Session \<Rightarrow> WebauthnConfig \<Rightarrow> DB \<Rightarrow> apiError + DB" where
  "UpdateWebauthnConfiguration w session web tx =
     (if fails w UpdateWebauthnConfiguration_call
      then Inl (StorageError UpdateWebauthnConfiguration_call)
      else Inr (update_session session (\<lambda>s. s\<lparr>WebauthnConfiguration := Some web\<rparr>) tx))"

text \<open>
  Modelled from the spec: \<^verbatim>\<open>session.UpdateWebauthnLoginSession\<close> is not among the
  sources. It stores the data of a login ceremony on the session row.
\<close>

definition UpdateWebauthnLoginSession :: "World \<Rightarrow> Session \<Rightarrow> SessionData \<Rightarrow> DB \<Rightarrow> apiError + DB" where
  "UpdateWebauthnLoginSession w session sd tx =
     (if fails w UpdateWebauthnLoginSession_call
      then Inl (StorageError UpdateWebauthnLoginSession_call)
      else Inr (update_session session (\<lambda>s. s\<lparr>WebauthnLoginSession := Some sd\<rparr>) tx))"

text \<open>
  Modelled from the spec: \<^verbatim>\<open>session.UpdateWebauthnRegistrationSession\<close> is not
  among the sources. It stores the data of a registration ceremony on the session row.
\<close>

definition UpdateWebauthnRegistrationSession :: "World \<Rightarrow> Session \<Rightarrow> SessionData \<Rightarrow> DB \<Rightarrow> apiError + DB" where
  "UpdateWebauthnRegistrationSession w session sd tx =
     (if fails w UpdateWebauthnRegistrationSession_call
      then Inl (StorageError UpdateWebauthnRegistrationSession_call)
      else Inr (update_session session (\<lambda>s. s\<lparr>WebauthnRegistrationSession := Some sd\<rparr>) tx))"

text \<open>
  Modelled from the spec: \<^verbatim>\<open>models.NewFactor\<close> is not among the sources. It builds a
  row in memory under a fresh identifier and fails when none can be generated.
\<close>

definition NewFactor :: "World \<Rightarrow> User \<Rightarrow> string \<Rightarrow> string \<Rightarrow> string \<Rightarrow> string \<Rightarrow> Factor option" where
  "NewFactor w user friendlyName factorType state secret =
     (case NewV4 w of
        None \<Rightarrow> None
      | Some i \<Rightarrow> Some \<lparr>Factor_ID = i, Factor_UserID = User_ID user,
                       Factor_FriendlyName = friendlyName, Factor_FactorType = factorType,
                       Factor_Status = state, Factor_Secret = secret\<rparr>)"

text \<open>
  Modelled from the spec: \<^verbatim>\<open>models.NewChallenge\<close> is not among the sources. It
  builds a row in memory under a fresh identifier, bound to the factor and the address;
  the creation time is the time of the call.
\<close>

definition NewChallenge :: "World \<Rightarrow> Factor \<Rightarrow> string \<Rightarrow> Challenge option" where
  "NewChallenge w factor ipAddress =
     (case NewV4 w of
        None \<Rightarrow> None
      | Some i \<Rightarrow> Some \<lparr>Challenge_ID = i, Challenge_FactorID = Factor_ID factor,
                       Challenge_IPAddress = ipAddress, Challenge_CreatedAt = now w,
                       Challenge_VerifiedAt = None\<rparr>)"

section \<open>The handlers\<close>

text \<open>The text of an error, as \<^verbatim>\<open>%s\<close> prints it into a message.\<close>

fun Error :: "apiError \<Rightarrow> string" where
  "Error (HTTPError code msg) = msg"
| "Error (StorageError c) = ''storage error''"
| "Error (EngineError msg) = msg"

text \<open>
  \<^verbatim>\<open>time.Second * time.Duration(d)\<close> is a product of 64-bit integers and wraps around;
  \<^verbatim>\<open>Unix()\<close> gives whole seconds.
\<close>

definition int64 :: "int \<Rightarrow> int" where
  "int64 x = (x + 2 ^ 63) mod 2 ^ 64 - 2 ^ 63"

definition Second :: int where
  "Second = 1000000000"

definition Seconds :: "int \<Rightarrow> int" where
  "Seconds d = int64 (Second * d)"

definition Unix :: "int \<Rightarrow> int" where
  "Unix t = t div Second"

text \<open>
  The loop of both enrollment handlers that counts the verified factors:
  \<^verbatim>\<open>for _, factor := range factors { if factor.Status == verified { n += 1 } }\<close>.
\<close>

fun numVerifiedFactors :: "int \<Rightarrow> Factor list \<Rightarrow> int" where
  "numVerifiedFactors n [] = n"
| "numVerifiedFactors n (factor # rest) =
     numVerifiedFactors (if Factor_Status factor = FactorStateVerified then n + 1 else n) rest"

subsection \<open>Enrollment\<close>

definition EnrollWebAuthnFactor :: "World \<Rightarrow> GlobalConfiguration \<Rightarrow> Request \<Rightarrow> DB \<Rightarrow> Outcome" where
  "EnrollWebAuthnFactor w config r db =
    (let user = getUser r; session = getSession r in
     case webauthn_New w \<lparr>RPDisplayName = ''Go Webauthn'',
                          RPID = ''2175-203-116-4-74.ap.ngrok.io'',
                          RPOrigin = ''https://2175-203-116-4-74.ap.ngrok.io'',
                          RPIcon = ''https://go-webauthn.local/logo.png''\<rparr> of
       None \<Rightarrow> (db, Inl (EngineError ''webauthn.New''))
     | Some web \<Rightarrow>
     (case getBodyBytes r of
       None \<Rightarrow> (db, Inl (internalServerError ''Could not read body''))
     | Some body \<Rightarrow>
     (case unmarshalEnroll w body of
       None \<Rightarrow> (db, Inl (badRequestError ''invalid body: unable to parse JSON''))
     | Some params \<Rightarrow>
     (case FindFactorsByUser w db user of
       Inl err \<Rightarrow> (db, Inl (internalServerError ''error validating number of factors in system''))
     | Inr factors \<Rightarrow>
       if int (length factors) \<ge> MaxEnrolledFactors config
       then (db, Inl (forbiddenError ''Enrolled factors exceed allowed limit, unenroll to continue''))
       else if numVerifiedFactors 0 factors \<ge> 1
       then (db, Inl (forbiddenError ''number of enrolled factors exceeds the allowed value, unenroll to continue''))
       else
       (case NewFactor w user (FriendlyName params) (FactorType params) FactorStateUnverified [] of
         None \<Rightarrow> (db, Inl (internalServerError ''database error creating factor''))
       | Some factor \<Rightarrow>
         (case Transaction db (\<lambda>tx.
                 andThen (Create_Factor w factor tx) (\<lambda>tx.
                 andThen (UpdateWebauthnConfiguration w session web tx) (\<lambda>tx.
                 andThen (NewAuditLogEntry w r user EnrollFactorAction (RemoteAddr r)
                            [(''factor_id'', Factor_ID factor)] tx) (\<lambda>tx.
                 Inr (tx, ()))))) of
            (db', Inl err) \<Rightarrow> (db', Inl err)
          | (db', Inr u) \<Rightarrow> (db', Inr (FactorJSON factor))))))))"

definition EnrollFactor :: "World \<Rightarrow> GlobalConfiguration \<Rightarrow> Request \<Rightarrow> DB \<Rightarrow> Outcome" where
  "EnrollFactor w config r db =
    (let user = getUser r in
     case getBodyBytes r of
       None \<Rightarrow> (db, Inl (internalServerError ''Could not read body''))
     | Some body \<Rightarrow>
     (case unmarshalEnroll w body of
       None \<Rightarrow> (db, Inl (badRequestError ''invalid body: unable to parse JSON''))
     | Some params \<Rightarrow>
       if User_IsSSOUser user
       then (db, Inl (unprocessableEntityError ''MFA enrollment only supported for non-SSO users at this time''))
       else if FactorType params = ''webauthn'' then EnrollWebAuthnFactor w config r db
       else if FactorType params \<noteq> TOTP
       then (db, Inl (badRequestError ''factor_type needs to be totp''))
       else
       (case (if Issuer params = [] then ParseRequestURI w (SiteURL config)
              else Some (Issuer params)) of
         None \<Rightarrow> (db, Inl (internalServerError ''site url is improperly formatted''))
       | Some issuer \<Rightarrow>
       (case FindFactorsByUser w db user of
         Inl err \<Rightarrow> (db, Inl (internalServerError ''error validating number of factors in system''))
       | Inr factors \<Rightarrow>
         if int (length factors) \<ge> MaxEnrolledFactors config
         then (db, Inl (forbiddenError ''Enrolled factors exceed allowed limit, unenroll to continue''))
         else if numVerifiedFactors 0 factors \<ge> MaxVerifiedFactors config
         then (db, Inl (forbiddenError ''Maximum number of enrolled factors reached, unenroll to continue''))
         else
         (case totp_Generate w issuer (User_Email user) of
           None \<Rightarrow> (db, Inl (internalServerError ''error generating QR Code secret key''))
         | Some (secret, url) \<Rightarrow>
         (case WriteQrSVG w url of
           None \<Rightarrow> (db, Inl (internalServerError ''error writing to QR Code''))
         | Some buf \<Rightarrow>
         (case NewFactor w user (FriendlyName params) (FactorType params) FactorStateUnverified secret of
           None \<Rightarrow> (db, Inl (internalServerError ''database error creating factor''))
         | Some factor \<Rightarrow>
           (case Transaction db (\<lambda>tx.
                   andThen (Create_Factor w factor tx) (\<lambda>tx.
                   andThen (NewAuditLogEntry w r user EnrollFactorAction (RemoteAddr r)
                              [(''factor_id'', Factor_ID factor)] tx) (\<lambda>tx.
                   Inr (tx, ())))) of
              (db', Inl err) \<Rightarrow> (db', Inl err)
            | (db', Inr u) \<Rightarrow>
                (db', Inr (EnrollFactorResponse (Factor_ID factor) TOTP
                             \<lparr>QRCode = buf, Secret = Factor_Secret factor, URI = url\<rparr>))))))))))"

subsection \<open>Challenge\<close>

text \<open>
  In \<^verbatim>\<open>ChallengeWebAuthnFactor\<close> the error of \<^verbatim>\<open>models.NewChallenge\<close> is overwritten
  unread, so the challenge may be nil; creating a nil row fails in the storage layer.
  The errors of the two transactions that store ceremony data are dropped as well: the
  first branch returns the options whatever its transaction did, the second overwrites
  the error with that of the next transaction.
\<close>

definition ChallengeWebAuthnFactor :: "World \<Rightarrow> Request \<Rightarrow> DB \<Rightarrow> Outcome" where
  "ChallengeWebAuthnFactor w r db =
    (let user = getUser r; session = getSession r; factor = getFactor r;
         ipAddress = GetIPAddress r; challenge = NewChallenge w factor ipAddress in
     case mapstructure_Decode w (WebauthnConfiguration session) of
       None \<Rightarrow> (db, Inl (EngineError ''mapstructure.Decode''))
     | Some web \<Rightarrow>
       if WebauthnRegistrationSession session = None
       then
         (case BeginLogin w web user of
            None \<Rightarrow> (db, Inl (EngineError ''BeginLogin''))
          | Some (options, sessionData) \<Rightarrow>
            (case Transaction db (\<lambda>tx.
                    andThen (UpdateWebauthnLoginSession w session sessionData tx) (\<lambda>tx.
                    Inr (tx, ()))) of
               (db', err) \<Rightarrow> (db', Inr (OptionsJSON options))))
       else
         (case BeginRegistration w web user of
            None \<Rightarrow> (db, Inl (EngineError ''BeginRegistration''))
          | Some (options, sessionData) \<Rightarrow>
            (case Transaction db (\<lambda>tx.
                    andThen (UpdateWebauthnRegistrationSession w session sessionData tx) (\<lambda>tx.
                    Inr (tx, ()))) of
               (db1, err1) \<Rightarrow>
            (case Transaction db1 (\<lambda>tx.
                    andThen (case challenge of
                               None \<Rightarrow> Inl (StorageError CreateChallenge_call)
                             | Some c \<Rightarrow> Create_Challenge w c tx) (\<lambda>tx.
                    andThen (NewAuditLogEntry w r user CreateChallengeAction (RemoteAddr r)
                               [(''factor_id'', Factor_ID factor),
                                (''factor_status'', Factor_Status factor)] tx) (\<lambda>tx.
                    Inr (tx, ())))) of
               (db2, Inl err) \<Rightarrow> (db2, Inl err)
             | (db2, Inr u) \<Rightarrow> (db2, Inr (OptionsJSON options))))))"

definition ChallengeFactor :: "World \<Rightarrow> GlobalConfiguration \<Rightarrow> Request \<Rightarrow> DB \<Rightarrow> Outcome" where
  "ChallengeFactor w config r db =
    (let user = getUser r; factor = getFactor r; ipAddress = GetIPAddress r in
     case NewChallenge w factor ipAddress of
       None \<Rightarrow> (db, Inl (internalServerError ''Database error creating challenge''))
     | Some challenge \<Rightarrow>
       if Factor_FactorType factor = ''webauthn'' then ChallengeWebAuthnFactor w r db
       else
       (case Transaction db (\<lambda>tx.
               andThen (Create_Challenge w challenge tx) (\<lambda>tx.
               andThen (NewAuditLogEntry w r user CreateChallengeAction (RemoteAddr r)
                          [(''factor_id'', Factor_ID factor),
                           (''factor_status'', Factor_Status factor)] tx) (\<lambda>tx.
               Inr (tx, ())))) of
          (db', Inl err) \<Rightarrow> (db', Inl err)
        | (db', Inr u) \<Rightarrow>
            (db', Inr (ChallengeFactorResponse (Challenge_ID challenge)
                         (Unix (Challenge_CreatedAt challenge
                                + Seconds (ChallengeExpiryDuration config)))))))"

subsection \<open>Verification\<close>

text \<open>
  The request body \<^verbatim>\<open>r.Body\<close> is a stream, and each parser of the WebAuthn library
  decodes one JSON value from the stream it is given. A stream that is at its end gives
  an error; otherwise the parser reads the bytes and leaves the stream at its end, since
  the body is a single JSON value (\<^verbatim>\<open>json.Unmarshal\<close> has accepted it before any
  parse). The result is the answer of the parser and the rest of the stream.
\<close>

definition parse_Body ::
  "(string \<Rightarrow> ParsedResponse option) \<Rightarrow> string \<Rightarrow> ParsedResponse option \<times> string" where
  "parse_Body parser stream =
     (if stream = [] then (None, []) else (parser stream, []))"

text \<open>
  \<^verbatim>\<open>VerifyWebAuthnFactor\<close> starts from \<^verbatim>\<open>sessionData := &webauthn.SessionData{}\<close>, the
  zero value, and never assigns it. Before it looks at the ceremony state it parses the
  body, which \<^verbatim>\<open>getBodyBytes\<close> has left readable, and calls \<^verbatim>\<open>CreateCredential\<close> once,
  dropping result and error. The parse in either ceremony branch reads the same stream
  \<^verbatim>\<open>r.Body\<close> again, after the first parse.
\<close>

definition VerifyWebAuthnFactor :: "World \<Rightarrow> Request \<Rightarrow> DB \<Rightarrow> Outcome" where
  "VerifyWebAuthnFactor w r db =
    (let sessionData = []; user = getUser r; session = getSession r in
     case mapstructure_Decode w (WebauthnConfiguration session) of
       None \<Rightarrow> (db, Inl (EngineError ''mapstructure.Decode''))
     | Some web \<Rightarrow>
     (case getBodyBytes r of
       None \<Rightarrow> (db, Inl (internalServerError ''Could not read body''))
     | Some body \<Rightarrow>
       if \<not> unmarshalCredential w body
       then (db, Inl (badRequestError ''invalid body: unable to parse JSON''))
       else
       (let loginSession = WebauthnLoginSession session;
            registrationSession = WebauthnRegistrationSession session;
            (parsedResponse, Body) = parse_Body (ParseCredentialCreationResponseBody w) body;
            credential = CreateCredential w web user sessionData parsedResponse in
        if registrationSession \<noteq> None
        then
          (case fst (parse_Body (ParseCredentialCreationResponseBody w) Body) of
             None \<Rightarrow> (db, Inl (EngineError ''ParseCredentialCreationResponseBody''))
           | Some parsedResponse \<Rightarrow>
             (case CreateCredential w web user sessionData (Some parsedResponse) of
                None \<Rightarrow> (db, Inl (EngineError ''CreateCredential''))
              | Some credential \<Rightarrow> (db, Inr EmptyStringJSON)))
        else if loginSession \<noteq> None
        then
          (case fst (parse_Body (ParseCredentialRequestResponseBody w) Body) of
             None \<Rightarrow> (db, Inl (EngineError ''ParseCredentialRequestResponseBody''))
           | Some parsedResponse \<Rightarrow>
             (let credential = ValidateLogin w web user sessionData parsedResponse in
              (db, Inr EmptyStringJSON)))
        else (db, Inl (internalServerError ''Please initiate a webauthn session'')))))"

text \<open>
  The closure that \<^verbatim>\<open>VerifyFactor\<close> runs as its transaction; it sets the token. The
  metering call after the transaction and the printing calls of the WebAuthn handlers
  change nothing of the state modelled here and are left out.
\<close>

definition VerifyFactor_tx ::
  "World \<Rightarrow> Request \<Rightarrow> User \<Rightarrow> Factor \<Rightarrow> Challenge \<Rightarrow> DB \<Rightarrow> apiError + DB \<times> string" where
  "VerifyFactor_tx w r user factor challenge tx =
     andThen (NewAuditLogEntry w r user VerifyFactorAction (RemoteAddr r)
                [(''factor_id'', Factor_ID factor),
                 (''challenge_id'', Challenge_ID challenge)] tx) (\<lambda>tx.
     andThen (Challenge_Verify w challenge tx) (\<lambda>tx.
     andThen (if Factor_Status factor \<noteq> FactorStateVerified
              then Factor_UpdateStatus w factor FactorStateVerified tx else Inr tx) (\<lambda>tx.
     andThen (FindUserByID w tx (User_ID user)) (\<lambda>user.
     andThen (updateMFASessionAndClaims w r user (Factor_ID factor) tx) (\<lambda>(tx, token).
     andThen (case setCookieTokens w token of
                Some terr \<Rightarrow> Inl (internalServerError (''Failed to set JWT cookie. '' @ terr))
              | None \<Rightarrow> Inr tx) (\<lambda>tx.
     andThen (case InvalidateSessionsWithAALLessThan w (User_ID user) AAL2 tx of
                Inl terr \<Rightarrow> Inl (internalServerError (''Failed to update sessions. '' @ Error terr))
              | Inr tx \<Rightarrow> Inr tx) (\<lambda>tx.
     andThen (case DeleteUnverifiedFactors w user tx of
                Inl terr \<Rightarrow> Inl (internalServerError (''Error removing unverified factors. '' @ Error terr))
              | Inr tx \<Rightarrow> Inr tx) (\<lambda>tx.
     Inr (tx, token)))))))))"

definition hasExpired :: "World \<Rightarrow> GlobalConfiguration \<Rightarrow> Challenge \<Rightarrow> bool" where
  "hasExpired w config challenge =
     (now w > Challenge_CreatedAt challenge + Seconds (ChallengeExpiryDuration config))"

definition VerifyFactor :: "World \<Rightarrow> GlobalConfiguration \<Rightarrow> Request \<Rightarrow> DB \<Rightarrow> Outcome" where
  "VerifyFactor w config r db =
    (let user = getUser r; factor = getFactor r; currentIP = GetIPAddress r in
     case getBodyBytes r of
       None \<Rightarrow> (db, Inl (internalServerError ''Could not read body''))
     | Some body \<Rightarrow>
     (case unmarshalVerify w body of
       None \<Rightarrow> (db, Inl (badRequestError ''invalid body: unable to parse JSON''))
     | Some params \<Rightarrow>
       if Factor_UserID factor \<noteq> User_ID user
       then (db, Inl (internalServerError ''user needs to own factor to verify''))
       else
       (case FindChallengeByChallengeID w db (ChallengeID params) of
          Inl None \<Rightarrow> (db, Inl (notFoundError ''Challenge not found''))
        | Inl (Some err) \<Rightarrow> (db, Inl (internalServerError ''Database error finding Challenge''))
        | Inr challenge \<Rightarrow>
          if Challenge_VerifiedAt challenge \<noteq> None \<or> Challenge_IPAddress challenge \<noteq> currentIP
          then (db, Inl (badRequestError ''Challenge and verify IP addresses mismatch''))
          else if hasExpired w config challenge
          then
            (case Transaction db (\<lambda>tx.
                    case Destroy_Challenge w challenge tx of
                      Inl terr \<Rightarrow> Inl (internalServerError ''Database error deleting challenge'')
                    | Inr tx \<Rightarrow> Inr (tx, ())) of
               (db', Inl err) \<Rightarrow> (db', Inl err)
             | (db', Inr u) \<Rightarrow>
                 (db', Inl (badRequestError (Challenge_ID challenge @
                    '' has expired, verify against another challenge or create a new challenge.''))))
          else if Factor_FactorType factor = ''webauthn'' then VerifyWebAuthnFactor w r db
          else if \<not> totp_Validate w (Code params) (Factor_Secret factor)
          then (db, Inl (badRequestError ''Invalid TOTP code entered''))
          else
            (case Transaction db (VerifyFactor_tx w r user factor challenge) of
               (db', Inl err) \<Rightarrow> (db', Inl err)
             | (db', Inr token) \<Rightarrow> (db', Inr (TokenJSON token))))))"

subsection \<open>Unenrollment\<close>

definition UnenrollFactor :: "World \<Rightarrow> Request \<Rightarrow> DB \<Rightarrow> Outcome" where
  "UnenrollFactor w r db =
    (let user = getUser r; factor = getFactor r; session = getSession r in
     if Factor_Status factor = FactorStateVerified \<and> Session_AAL session \<noteq> AAL2
     then (db, Inl (badRequestError ''AAL2 required to unenroll verified factor''))
     else if Factor_UserID factor \<noteq> User_ID user
     then (db, Inl (internalServerError ''user must own factor to unenroll''))
     else
     (case Transaction db (\<lambda>tx.
             andThen (Destroy_Factor w factor tx) (\<lambda>tx.
             andThen (NewAuditLogEntry w r user UnenrollFactorAction (RemoteAddr r)
                        [(''factor_id'', Factor_ID factor),
                         (''factor_status'', Factor_Status factor),
                         (''session_id'', Session_ID session)] tx) (\<lambda>tx.
             andThen (DowngradeSessionsToAAL1 w factor tx) (\<lambda>tx.
             Inr (tx, ()))))) of
        (db', Inl err) \<Rightarrow> (db', Inl err)
      | (db', Inr u) \<Rightarrow> (db', Inr (UnenrollFactorResponse (Factor_ID factor)))))"

section \<open>A concrete deployment\<close>

text \<open>
  One user with a pending TOTP factor, an abandoned second enrollment and a WebAuthn
  factor, another user's factor and session, and a challenge issued at time 0 from
  10.0.0.1. The collaborators of \<open>world0\<close> accept the code 123456 and fail nowhere;
  the decoders take the body itself as the factor type (enrollment) or as the submitted
  code (verification, always for the challenge c1).
\<close>

definition alice :: User where
  "alice = \<lparr>User_ID = ''u1'', User_IsSSOUser = False, User_Email = ''alice@example.com''\<rparr>"

definition totp_factor :: Factor where
  "totp_factor = \<lparr>Factor_ID = ''f1'', Factor_UserID = ''u1'', Factor_FriendlyName = ''phone'',
     Factor_FactorType = ''totp'', Factor_Status = ''unverified'', Factor_Secret = ''JBSWY3DP''\<rparr>"

definition abandoned_factor :: Factor where
  "abandoned_factor = \<lparr>Factor_ID = ''f2'', Factor_UserID = ''u1'', Factor_FriendlyName = ''old'',
     Factor_FactorType = ''totp'', Factor_Status = ''unverified'', Factor_Secret = ''GEZDGNBV''\<rparr>"

definition bob_factor :: Factor where
  "bob_factor = \<lparr>Factor_ID = ''f3'', Factor_UserID = ''u2'', Factor_FriendlyName = ''bob'',
     Factor_FactorType = ''totp'', Factor_Status = ''unverified'', Factor_Secret = ''MFRGGZDF''\<rparr>"

definition webauthn_factor :: Factor where
  "webauthn_factor = \<lparr>Factor_ID = ''f4'', Factor_UserID = ''u1'', Factor_FriendlyName = ''key'',
     Factor_FactorType = ''webauthn'', Factor_Status = ''unverified'', Factor_Secret = []\<rparr>"

definition challenge1 :: Challenge where
  "challenge1 = \<lparr>Challenge_ID = ''c1'', Challenge_FactorID = ''f1'',
     Challenge_IPAddress = ''10.0.0.1'', Challenge_CreatedAt = 0, Challenge_VerifiedAt = None\<rparr>"

definition session1 :: Session where
  "session1 = \<lparr>Session_ID = ''s1'', Session_UserID = ''u1'', Session_AAL = AAL1,
     Session_FactorID = None, WebauthnConfiguration = None,
     WebauthnRegistrationSession = None, WebauthnLoginSession = None\<rparr>"

definition session2 :: Session where
  "session2 = \<lparr>Session_ID = ''s2'', Session_UserID = ''u1'', Session_AAL = AAL1,
     Session_FactorID = None, WebauthnConfiguration = None,
     WebauthnRegistrationSession = None, WebauthnLoginSession = None\<rparr>"

definition session3 :: Session where
  "session3 = \<lparr>Session_ID = ''s3'', Session_UserID = ''u2'', Session_AAL = AAL1,
     Session_FactorID = None, WebauthnConfiguration = None,
     WebauthnRegistrationSession = None, WebauthnLoginSession = None\<rparr>"

definition db0 :: DB where
  "db0 = \<lparr>DB_factors = [totp_factor, abandoned_factor, bob_factor],
           DB_challenges = [challenge1],
           DB_sessions = [session1, session2, session3],
           DB_users = [alice],
           DB_audit_log = []\<rparr>"

definition config0 :: GlobalConfiguration where
  "config0 = \<lparr>SiteURL = ''https://example.com'', MaxEnrolledFactors = 10,
               MaxVerifiedFactors = 3, ChallengeExpiryDuration = 300\<rparr>"

definition site_webauthn :: WebauthnConfig where
  "site_webauthn = \<lparr>RPDisplayName = ''Example'', RPID = ''example.com'',
                     RPOrigin = ''https://example.com'', RPIcon = []\<rparr>"

definition world0 :: World where
  "world0 = \<lparr>now = 100000000000,
              NewV4 = Some ''n1'',
              fails = (\<lambda>c. False),
              unmarshalEnroll = (\<lambda>b. Some \<lparr>FriendlyName = ''key'', FactorType = b, Issuer = []\<rparr>),
              unmarshalVerify = (\<lambda>b. Some \<lparr>ChallengeID = ''c1'', Code = b\<rparr>),
              unmarshalCredential = (\<lambda>b. True),
              ParseRequestURI = (\<lambda>u. Some ''example.com''),
              totp_Generate = (\<lambda>issuer account. Some (''NEWSECRET'', ''otpauth://totp/x'')),
              WriteQrSVG = (\<lambda>u. Some ''svg''),
              totp_Validate = (\<lambda>code secret. code = ''123456''),
              webauthn_New = Some,
              mapstructure_Decode = (\<lambda>m. m),
              BeginLogin = (\<lambda>web u. Some (''login-options'', ''login-data'')),
              BeginRegistration = (\<lambda>web u. Some (''registration-options'', ''registration-data'')),
              ParseCredentialCreationResponseBody = (\<lambda>bytes. Some ''attestation''),
              ParseCredentialRequestResponseBody = (\<lambda>bytes. Some ''assertion''),
              CreateCredential = (\<lambda>web u sd p. if sd = ''registration-data'' then Some ''credential'' else None),
              ValidateLogin = (\<lambda>web u sd p. if sd = ''login-data'' then Some ''credential'' else None),
              issueToken = (\<lambda>u f. ''token''),
              setCookieTokens = (\<lambda>t. None)\<rparr>"

text \<open>The request that verifies the TOTP factor with the body given.\<close>

definition verify_request :: "string \<Rightarrow> Request" where
  "verify_request body = \<lparr>getUser = alice, getFactor = totp_factor, getSession = session1,
     RemoteAddr = ''10.0.0.1:4000'', GetIPAddress = ''10.0.0.1'', getBodyBytes = Some body\<rparr>"

text \<open>
  The requests on the WebAuthn factor, from a session that holds the relying-party
  configuration and the ceremony data given.
\<close>

definition webauthn_request :: "SessionData option \<Rightarrow> SessionData option \<Rightarrow> Request" where
  "webauthn_request registration login =
     \<lparr>getUser = alice, getFactor = webauthn_factor,
      getSession = session1\<lparr>WebauthnConfiguration := Some site_webauthn,
                            WebauthnRegistrationSession := registration,
                            WebauthnLoginSession := login\<rparr>,
      RemoteAddr = ''10.0.0.1:4000'', GetIPAddress = ''10.0.0.1'', getBodyBytes = Some ''{}''\<rparr>"

text \<open>The enrollment request whose body asks for the factor type given.\<close>

definition enroll_request :: "string \<Rightarrow> Request" where
  "enroll_request factorType = \<lparr>getUser = alice, getFactor = totp_factor, getSession = session1,
     RemoteAddr = ''10.0.0.1:4000'', GetIPAddress = ''10.0.0.1'', getBodyBytes = Some factorType\<rparr>"

text \<open>A database in which the user holds exactly one factor, and it is verified.\<close>

definition db_one_verified :: DB where
  "db_one_verified = db0\<lparr>DB_factors := [totp_factor\<lparr>Factor_Status := ''verified''\<rparr>, bob_factor]\<rparr>"

section \<open>Evaluation and basic facts\<close>

lemmas example_defs = alice_def totp_factor_def abandoned_factor_def bob_factor_def
  webauthn_factor_def challenge1_def session1_def session2_def session3_def db0_def
  config0_def site_webauthn_def world0_def verify_request_def webauthn_request_def
  enroll_request_def db_one_verified_def

lemmas storage_defs = Transaction_def andThen_def Create_Factor_def Create_Challenge_def
  Destroy_Challenge_def Destroy_Factor_def NewAuditLogEntry_def FindFactorsByUser_def
  FindChallengeByChallengeID_def FindUserByID_def Challenge_Verify_def Factor_UpdateStatus_def
  updateMFASessionAndClaims_def aal_less_def InvalidateSessionsWithAALLessThan_def
  DeleteUnverifiedFactors_def DowngradeSessionsToAAL1_def update_session_def
  UpdateWebauthnConfiguration_def UpdateWebauthnLoginSession_def
  UpdateWebauthnRegistrationSession_def NewFactor_def NewChallenge_def

lemmas constant_defs = FactorStateUnverified_def FactorStateVerified_def TOTP_def
  internalServerError_def badRequestError_def forbiddenError_def notFoundError_def
  unprocessableEntityError_def int64_def Second_def Seconds_def Unix_def hasExpired_def

lemma int64_in_range: "- (2 ^ 63) \<le> x \<Longrightarrow> x < 2 ^ 63 \<Longrightarrow> int64 x = x"
  unfolding int64_def by (simp add: mod_pos_pos_trivial)

lemma Seconds_exact:
  "- 9223372036 \<le> d \<Longrightarrow> d \<le> 9223372036 \<Longrightarrow> Seconds d = 1000000000 * d"
  unfolding Seconds_def Second_def by (rule int64_in_range) auto

lemma numVerifiedFactors_count:
  "numVerifiedFactors n fs = n + int (length (filter (\<lambda>f. Factor_Status f = FactorStateVerified) fs))"
  by (induction fs arbitrary: n) auto



subsection \<open>The WebAuthn verification never writes and never succeeds\<close>

lemma parse_Body_drains: "snd (parse_Body parser stream) = []"
  by (simp add: parse_Body_def)

lemma parse_Body_at_end: "fst (parse_Body parser []) = None"
  by (simp add: parse_Body_def)

lemma VerifyWebAuthnFactor_fails: "\<exists>err. VerifyWebAuthnFactor w r db = (db, Inl err)"
  by (simp add: VerifyWebAuthnFactor_def Let_def parse_Body_def split: option.splits prod.splits)

lemma VerifyWebAuthnFactor_db: "fst (VerifyWebAuthnFactor w r db) = db"
  using VerifyWebAuthnFactor_fails[of w r db] by auto

lemma VerifyWebAuthnFactor_no_success: "snd (VerifyWebAuthnFactor w r db) \<noteq> Inr resp"
  using VerifyWebAuthnFactor_fails[of w r db] by auto

lemma VerifyWebAuthnFactor_no_token: "snd (VerifyWebAuthnFactor w r db) \<noteq> Inr (TokenJSON token)"
  by (rule VerifyWebAuthnFactor_no_success)

subsection \<open>The transaction of VerifyFactor\<close>

lemma VerifyFactor_tx_Inr:
  assumes "VerifyFactor_tx w r user factor c db = Inr (db', token)"
  shows "DB_audit_log db' = DB_audit_log db @
           [\<lparr>Audit_Actor = User_ID user, Audit_Action = VerifyFactorAction,
             Audit_IPAddress = RemoteAddr r,
             Audit_Traits = [(''factor_id'', Factor_ID factor), (''challenge_id'', Challenge_ID c)]\<rparr>]"
    and "DB_challenges db' =
           map (\<lambda>x. if Challenge_ID x = Challenge_ID c
                    then x\<lparr>Challenge_VerifiedAt := Some (now w)\<rparr> else x) (DB_challenges db)"
    and "DB_factors db' =
           filter (\<lambda>f. \<not> (Factor_UserID f = User_ID user \<and> Factor_Status f = FactorStateUnverified))
             (if Factor_Status factor \<noteq> FactorStateVerified
              then map (\<lambda>x. if Factor_ID x = Factor_ID factor
                            then x\<lparr>Factor_Status := FactorStateVerified\<rparr> else x) (DB_factors db)
              else DB_factors db)"
    and "DB_sessions db' =
           filter (\<lambda>s. \<not> (Session_UserID s = User_ID user \<and> Session_AAL s = AAL1))
             (map (\<lambda>s. if Session_ID s = Session_ID (getSession r)
                      then s\<lparr>Session_AAL := AAL2, Session_FactorID := Some (Factor_ID factor)\<rparr> else s)
                  (DB_sessions db))"
    and "DB_users db' = DB_users db"
  using assms
  by (auto simp: VerifyFactor_tx_def andThen_def NewAuditLogEntry_def Challenge_Verify_def
      Factor_UpdateStatus_def FindUserByID_def updateMFASessionAndClaims_def
      InvalidateSessionsWithAALLessThan_def DeleteUnverifiedFactors_def aal_less_def
      find_Some_iff
      split: if_splits option.splits sum.splits)

lemma VerifyFactor_tx_succeeds:
  assumes "\<not> fails w NewAuditLogEntry_call" and "\<not> fails w ChallengeVerify_call"
    and "\<not> fails w UpdateStatus_call" and "\<not> fails w FindUserByID_call"
    and "\<not> fails w updateMFASessionAndClaims_call"
    and "\<not> fails w InvalidateSessionsWithAALLessThan_call"
    and "\<not> fails w DeleteUnverifiedFactors_call"
    and "find (\<lambda>u. User_ID u = User_ID user) (DB_users db) = Some u"
    and "setCookieTokens w (issueToken w u (Factor_ID factor)) = None"
  shows "\<exists>db'. VerifyFactor_tx w r user factor c db = Inr (db', issueToken w u (Factor_ID factor))"
  using assms
  by (simp add: VerifyFactor_tx_def andThen_def NewAuditLogEntry_def Challenge_Verify_def
      Factor_UpdateStatus_def FindUserByID_def updateMFASessionAndClaims_def
      InvalidateSessionsWithAALLessThan_def DeleteUnverifiedFactors_def)

lemma VerifyFactor_token:
  assumes "VerifyFactor w config r db = (db', Inr (TokenJSON token))"
  shows "\<exists>body params c. getBodyBytes r = Some body \<and> unmarshalVerify w body = Some params
          \<and> Factor_UserID (getFactor r) = User_ID (getUser r)
          \<and> FindChallengeByChallengeID w db (ChallengeID params) = Inr c
          \<and> Challenge_VerifiedAt c = None \<and> Challenge_IPAddress c = GetIPAddress r
          \<and> \<not> hasExpired w config c
          \<and> Factor_FactorType (getFactor r) \<noteq> ''webauthn''
          \<and> totp_Validate w (Code params) (Factor_Secret (getFactor r))
          \<and> VerifyFactor_tx w r (getUser r) (getFactor r) c db = Inr (db', token)"
  using assms VerifyWebAuthnFactor_no_token[of w r db token]
  by (auto simp: VerifyFactor_def Let_def Transaction_def
      split: if_splits option.splits sum.splits prod.splits)

lemma VerifyFactor_success:
  assumes "VerifyFactor w config r db = (db', Inr resp)"
  shows "\<exists>token. resp = TokenJSON token"
  using assms VerifyWebAuthnFactor_no_success[of w r db resp]
  by (auto simp: VerifyFactor_def Let_def Transaction_def
      split: if_splits option.splits sum.splits prod.splits)

lemma VerifyFactor_error_keeps:
  assumes "VerifyFactor w config r db = (db', Inl err)"
  shows "DB_audit_log db' = DB_audit_log db \<and> DB_factors db' = DB_factors db
       \<and> DB_sessions db' = DB_sessions db \<and> DB_users db' = DB_users db
       \<and> set (DB_challenges db') \<subseteq> set (DB_challenges db)"
  using assms VerifyWebAuthnFactor_db[of w r db]
  by (auto simp: VerifyFactor_def Let_def Transaction_def Destroy_Challenge_def
      split: if_splits option.splits sum.splits prod.splits)

section \<open>Verification\<close>

text \<open>
  C1. Every answer of \<open>VerifyFactor\<close> that is not an error carries the access token,
  and its one transaction has written the audit entry for the factor and the challenge,
  set the verification time of the challenge, promoted the factor only if the factor of
  the request was not yet verified (for a factor that was already verified no factor
  row is written at all), elevated the calling session and removed every other session
  of the user below AAL2, and removed every unverified factor of the user, so that the
  promoted factor is the one that stays. Whenever \<open>VerifyFactor\<close> answers with an
  error, no audit entry, factor or session has changed and no challenge row was
  written: the challenge is not consumed. A WebAuthn factor never gets an answer that
  is not an error, because \<open>VerifyWebAuthnFactor\<close> parses the drained body again.
\<close>

theorem VerifyFactor_success_is_one_transaction:
  "(\<forall>db' resp. VerifyFactor w config r db = (db', Inr resp) \<longrightarrow>
      (\<exists>body params c token.
          resp = TokenJSON token
        \<and> getBodyBytes r = Some body \<and> unmarshalVerify w body = Some params
        \<and> FindChallengeByChallengeID w db (ChallengeID params) = Inr c
        \<and> DB_audit_log db' = DB_audit_log db @
             [\<lparr>Audit_Actor = User_ID (getUser r), Audit_Action = VerifyFactorAction,
               Audit_IPAddress = RemoteAddr r,
               Audit_Traits = [(''factor_id'', Factor_ID (getFactor r)),
                               (''challenge_id'', Challenge_ID c)]\<rparr>]
        \<and> DB_challenges db' =
             map (\<lambda>x. if Challenge_ID x = Challenge_ID c
                      then x\<lparr>Challenge_VerifiedAt := Some (now w)\<rparr> else x) (DB_challenges db)
        \<and> (\<forall>x \<in> set (DB_challenges db').
              Challenge_ID x = Challenge_ID c \<longrightarrow> Challenge_VerifiedAt x = Some (now w))
        \<and> (Factor_Status (getFactor r) \<noteq> FactorStateVerified \<longrightarrow>
              (\<forall>f \<in> set (DB_factors db').
                 Factor_ID f = Factor_ID (getFactor r) \<longrightarrow> Factor_Status f = FactorStateVerified))
        \<and> (Factor_Status (getFactor r) = FactorStateVerified \<longrightarrow>
              set (DB_factors db') \<subseteq> set (DB_factors db))
        \<and> (getFactor r \<in> set (DB_factors db) \<longrightarrow>
              (getFactor r)\<lparr>Factor_Status := FactorStateVerified\<rparr> \<in> set (DB_factors db'))
        \<and> (\<forall>f \<in> set (DB_factors db'). Factor_UserID f = User_ID (getUser r) \<longrightarrow>
              Factor_Status f \<noteq> FactorStateUnverified)
        \<and> (\<forall>f \<in> set (DB_factors db). Factor_UserID f \<noteq> User_ID (getUser r) \<longrightarrow>
              Factor_ID f \<noteq> Factor_ID (getFactor r) \<longrightarrow> f \<in> set (DB_factors db'))
        \<and> (\<forall>s \<in> set (DB_sessions db'). Session_UserID s = User_ID (getUser r) \<longrightarrow>
              Session_AAL s = AAL2)
        \<and> (\<forall>s \<in> set (DB_sessions db). Session_ID s = Session_ID (getSession r) \<longrightarrow>
              s\<lparr>Session_AAL := AAL2, Session_FactorID := Some (Factor_ID (getFactor r))\<rparr>
                \<in> set (DB_sessions db'))
        \<and> (\<forall>s \<in> set (DB_sessions db). Session_UserID s \<noteq> User_ID (getUser r) \<longrightarrow>
              Session_ID s \<noteq> Session_ID (getSession r) \<longrightarrow> s \<in> set (DB_sessions db'))
        \<and> (\<forall>s \<in> set (DB_sessions db). Session_UserID s = User_ID (getUser r) \<longrightarrow>
              Session_AAL s = AAL1 \<longrightarrow> Session_ID s \<noteq> Session_ID (getSession r) \<longrightarrow>
              s \<notin> set (DB_sessions db'))))
   \<and> (\<forall>db' err. VerifyFactor w config r db = (db', Inl err) \<longrightarrow>
        DB_audit_log db' = DB_audit_log db \<and> DB_factors db' = DB_factors db
      \<and> DB_sessions db' = DB_sessions db
      \<and> set (DB_challenges db') \<subseteq> set (DB_challenges db))"
proof (intro conjI allI impI)
  fix db' resp
  assume any: "VerifyFactor w config r db = (db', Inr resp)"
  from VerifyFactor_success[OF any] obtain token where tok: "resp = TokenJSON token"
    by blast
  with any have ok: "VerifyFactor w config r db = (db', Inr (TokenJSON token))"
    by simp
  from VerifyFactor_token[OF ok] obtain body params c where
    b: "getBodyBytes r = Some body" "unmarshalVerify w body = Some params"
    and f: "FindChallengeByChallengeID w db (ChallengeID params) = Inr c"
    and tx: "VerifyFactor_tx w r (getUser r) (getFactor r) c db = Inr (db', token)"
    by blast
  note eqs = VerifyFactor_tx_Inr[OF tx]
  have audit: "DB_audit_log db' = DB_audit_log db @
             [\<lparr>Audit_Actor = User_ID (getUser r), Audit_Action = VerifyFactorAction,
               Audit_IPAddress = RemoteAddr r,
               Audit_Traits = [(''factor_id'', Factor_ID (getFactor r)),
                               (''challenge_id'', Challenge_ID c)]\<rparr>]"
    by (rule eqs(1))
  have marked: "\<forall>x \<in> set (DB_challenges db').
              Challenge_ID x = Challenge_ID c \<longrightarrow> Challenge_VerifiedAt x = Some (now w)"
    unfolding eqs(2) by auto
  have promoted: "Factor_Status (getFactor r) \<noteq> FactorStateVerified \<longrightarrow>
              (\<forall>f \<in> set (DB_factors db').
                 Factor_ID f = Factor_ID (getFactor r) \<longrightarrow> Factor_Status f = FactorStateVerified)"
    unfolding eqs(3) by auto
  have not_again: "Factor_Status (getFactor r) = FactorStateVerified \<longrightarrow>
              set (DB_factors db') \<subseteq> set (DB_factors db)"
    unfolding eqs(3) by auto
  have stays: "getFactor r \<in> set (DB_factors db) \<longrightarrow>
              (getFactor r)\<lparr>Factor_Status := FactorStateVerified\<rparr> \<in> set (DB_factors db')"
  proof
    assume m: "getFactor r \<in> set (DB_factors db)"
    show "(getFactor r)\<lparr>Factor_Status := FactorStateVerified\<rparr> \<in> set (DB_factors db')"
    proof (cases "Factor_Status (getFactor r) = FactorStateVerified")
      case True
      then have same: "(getFactor r)\<lparr>Factor_Status := FactorStateVerified\<rparr> = getFactor r"
        by simp
      have "getFactor r \<in> set (DB_factors db')"
        unfolding eqs(3) using m True
        by (simp add: FactorStateVerified_def FactorStateUnverified_def)
      with same show ?thesis by simp
    next
      case False
      with m show ?thesis
        unfolding eqs(3)
        by (auto simp: FactorStateVerified_def FactorStateUnverified_def image_iff
            intro!: bexI[of _ "getFactor r"])
    qed
  qed
  have swept: "\<forall>f \<in> set (DB_factors db'). Factor_UserID f = User_ID (getUser r) \<longrightarrow>
              Factor_Status f \<noteq> FactorStateUnverified"
    unfolding eqs(3) by auto
  have others: "\<forall>f \<in> set (DB_factors db). Factor_UserID f \<noteq> User_ID (getUser r) \<longrightarrow>
              Factor_ID f \<noteq> Factor_ID (getFactor r) \<longrightarrow> f \<in> set (DB_factors db')"
    unfolding eqs(3) by (auto simp: image_iff)
  have aal2: "\<forall>s \<in> set (DB_sessions db'). Session_UserID s = User_ID (getUser r) \<longrightarrow>
              Session_AAL s = AAL2"
    unfolding eqs(4) by (auto intro: AuthenticatorAssuranceLevel.exhaust)
  have elevated: "\<forall>s \<in> set (DB_sessions db). Session_ID s = Session_ID (getSession r) \<longrightarrow>
              s\<lparr>Session_AAL := AAL2, Session_FactorID := Some (Factor_ID (getFactor r))\<rparr>
                \<in> set (DB_sessions db')"
    unfolding eqs(4) by (auto simp: image_iff intro!: bexI)
  have foreign: "\<forall>s \<in> set (DB_sessions db). Session_UserID s \<noteq> User_ID (getUser r) \<longrightarrow>
              Session_ID s \<noteq> Session_ID (getSession r) \<longrightarrow> s \<in> set (DB_sessions db')"
    unfolding eqs(4) by (auto simp: image_iff)
  have invalidated: "\<forall>s \<in> set (DB_sessions db). Session_UserID s = User_ID (getUser r) \<longrightarrow>
              Session_AAL s = AAL1 \<longrightarrow> Session_ID s \<noteq> Session_ID (getSession r) \<longrightarrow>
              s \<notin> set (DB_sessions db')"
    unfolding eqs(4) by (auto split: if_splits)
  show "\<exists>body params c token.
          resp = TokenJSON token
        \<and> getBodyBytes r = Some body \<and> unmarshalVerify w body = Some params
        \<and> FindChallengeByChallengeID w db (ChallengeID params) = Inr c
        \<and> DB_audit_log db' = DB_audit_log db @
             [\<lparr>Audit_Actor = User_ID (getUser r), Audit_Action = VerifyFactorAction,
               Audit_IPAddress = RemoteAddr r,
               Audit_Traits = [(''factor_id'', Factor_ID (getFactor r)),
                               (''challenge_id'', Challenge_ID c)]\<rparr>]
        \<and> DB_challenges db' =
             map (\<lambda>x. if Challenge_ID x = Challenge_ID c
                      then x\<lparr>Challenge_VerifiedAt := Some (now w)\<rparr> else x) (DB_challenges db)
        \<and> (\<forall>x \<in> set (DB_challenges db').
              Challenge_ID x = Challenge_ID c \<longrightarrow> Challenge_VerifiedAt x = Some (now w))
        \<and> (Factor_Status (getFactor r) \<noteq> FactorStateVerified \<longrightarrow>
              (\<forall>f \<in> set (DB_factors db').
                 Factor_ID f = Factor_ID (getFactor r) \<longrightarrow> Factor_Status f = FactorStateVerified))
        \<and> (Factor_Status (getFactor r) = FactorStateVerified \<longrightarrow>
              set (DB_factors db') \<subseteq> set (DB_factors db))
        \<and> (getFactor r \<in> set (DB_factors db) \<longrightarrow>
              (getFactor r)\<lparr>Factor_Status := FactorStateVerified\<rparr> \<in> set (DB_factors db'))
        \<and> (\<forall>f \<in> set (DB_factors db'). Factor_UserID f = User_ID (getUser r) \<longrightarrow>
              Factor_Status f \<noteq> FactorStateUnverified)
        \<and> (\<forall>f \<in> set (DB_factors db). Factor_UserID f \<noteq> User_ID (getUser r) \<longrightarrow>
              Factor_ID f \<noteq> Factor_ID (getFactor r) \<longrightarrow> f \<in> set (DB_factors db'))
        \<and> (\<forall>s \<in> set (DB_sessions db'). Session_UserID s = User_ID (getUser r) \<longrightarrow>
              Session_AAL s = AAL2)
        \<and> (\<forall>s \<in> set (DB_sessions db). Session_ID s = Session_ID (getSession r) \<longrightarrow>
              s\<lparr>Session_AAL := AAL2, Session_FactorID := Some (Factor_ID (getFactor r))\<rparr>
                \<in> set (DB_sessions db'))
        \<and> (\<forall>s \<in> set (DB_sessions db). Session_UserID s \<noteq> User_ID (getUser r) \<longrightarrow>
              Session_ID s \<noteq> Session_ID (getSession r) \<longrightarrow> s \<in> set (DB_sessions db'))
        \<and> (\<forall>s \<in> set (DB_sessions db). Session_UserID s = User_ID (getUser r) \<longrightarrow>
              Session_AAL s = AAL1 \<longrightarrow> Session_ID s \<noteq> Session_ID (getSession r) \<longrightarrow>
              s \<notin> set (DB_sessions db'))"
    using tok b f audit eqs(2) marked promoted not_again stays swept others aal2 elevated
      foreign invalidated
    by blast
next
  fix db' err
  assume "VerifyFactor w config r db = (db', Inl err)"
  from VerifyFactor_error_keeps[OF this]
  show "DB_audit_log db' = DB_audit_log db" "DB_factors db' = DB_factors db"
    "DB_sessions db' = DB_sessions db" "set (DB_challenges db') \<subseteq> set (DB_challenges db)"
    by simp_all
qed

text \<open>
  Witness of C1. The pending factor is verified with the right code:
  the factor is promoted, the abandoned enrollment and the second session of the user
  are gone, the rows of the other user stay. When the last step of the transaction fails, nothing is kept. A
  factor that is already verified is verified again without any change to its row.
\<close>

theorem VerifyFactor_success_is_one_transaction_witness:
  "snd (VerifyFactor world0 config0 (verify_request ''123456'') db0) = Inr (TokenJSON ''token'')
   \<and> map Audit_Action (DB_audit_log (fst (VerifyFactor world0 config0 (verify_request ''123456'') db0)))
        = [VerifyFactorAction]
   \<and> map Challenge_VerifiedAt (DB_challenges (fst (VerifyFactor world0 config0 (verify_request ''123456'') db0)))
        = [Some 100000000000]
   \<and> DB_factors (fst (VerifyFactor world0 config0 (verify_request ''123456'') db0))
        = [totp_factor\<lparr>Factor_Status := ''verified''\<rparr>, bob_factor]
   \<and> DB_sessions (fst (VerifyFactor world0 config0 (verify_request ''123456'') db0))
        = [session1\<lparr>Session_AAL := AAL2, Session_FactorID := Some ''f1''\<rparr>, session3]
   \<and> VerifyFactor (world0\<lparr>fails := (\<lambda>c. c = DeleteUnverifiedFactors_call)\<rparr>) config0
        (verify_request ''123456'') db0
        = (db0, Inl (internalServerError ''Error removing unverified factors. storage error''))
   \<and> VerifyFactor world0 config0
        ((verify_request ''123456'')\<lparr>getFactor := totp_factor\<lparr>Factor_Status := ''verified''\<rparr>\<rparr>)
        db_one_verified
        = (db_one_verified\<lparr>
             DB_challenges := [challenge1\<lparr>Challenge_VerifiedAt := Some 100000000000\<rparr>],
             DB_sessions := [session1\<lparr>Session_AAL := AAL2, Session_FactorID := Some ''f1''\<rparr>, session3],
             DB_audit_log := [\<lparr>Audit_Actor = ''u1'', Audit_Action = VerifyFactorAction,
                               Audit_IPAddress = ''10.0.0.1:4000'',
                               Audit_Traits = [(''factor_id'', ''f1''), (''challenge_id'', ''c1'')]\<rparr>]\<rparr>,
           Inr (TokenJSON ''token''))"
  using VerifyFactor_success_is_one_transaction[of world0 config0 "verify_request ''123456''" db0]
  by (simp add: VerifyFactor_def VerifyFactor_tx_def Let_def example_defs storage_defs constant_defs)




text \<open>
  C3, as amended. A request that passes the ownership check, the challenge lookup, the
  single-use check and the address check, and that arrives after the creation time of
  the challenge plus the configured number of seconds, is answered with the expiry
  error, and the challenge row is deleted although the call fails, every other row
  staying as it is (a failure of the deletion itself gives an internal error and
  deletes nothing). Such a request on a TOTP factor that arrives no later than that,
  with a code that the TOTP library accepts, is answered with the token when no storage
  call fails, the user row exists and the cookie is written. The configured number of
  seconds is one whose nanoseconds fit a 64-bit integer.
\<close>

theorem VerifyFactor_expiry:
  assumes "getBodyBytes r = Some body" and "unmarshalVerify w body = Some params"
    and "Factor_UserID (getFactor r) = User_ID (getUser r)"
    and "FindChallengeByChallengeID w db (ChallengeID params) = Inr c"
    and "Challenge_VerifiedAt c = None" and "Challenge_IPAddress c = GetIPAddress r"
    and "- 9223372036 \<le> ChallengeExpiryDuration config"
    and "ChallengeExpiryDuration config \<le> 9223372036"
  shows "(now w > Challenge_CreatedAt c + 1000000000 * ChallengeExpiryDuration config \<longrightarrow>
           VerifyFactor w config r db =
             (if fails w DestroyChallenge_call
              then (db, Inl (internalServerError ''Database error deleting challenge''))
              else (db\<lparr>DB_challenges :=
                        filter (\<lambda>x. Challenge_ID x \<noteq> Challenge_ID c) (DB_challenges db)\<rparr>,
                    Inl (badRequestError (Challenge_ID c @
                      '' has expired, verify against another challenge or create a new challenge.'')))))
       \<and> (now w \<le> Challenge_CreatedAt c + 1000000000 * ChallengeExpiryDuration config \<longrightarrow>
           Factor_FactorType (getFactor r) = TOTP \<longrightarrow>
           totp_Validate w (Code params) (Factor_Secret (getFactor r)) \<longrightarrow>
           (\<forall>call. \<not> fails w call) \<longrightarrow>
           find (\<lambda>u. User_ID u = User_ID (getUser r)) (DB_users db) = Some u \<longrightarrow>
           setCookieTokens w (issueToken w u (Factor_ID (getFactor r))) = None \<longrightarrow>
           (\<exists>db'. VerifyFactor w config r db =
                    (db', Inr (TokenJSON (issueToken w u (Factor_ID (getFactor r)))))))"
proof (intro conjI impI)
  assume "now w > Challenge_CreatedAt c + 1000000000 * ChallengeExpiryDuration config"
  then have "hasExpired w config c"
    using assms(7,8) by (simp add: hasExpired_def Seconds_exact)
  with assms(1-6) show "VerifyFactor w config r db =
             (if fails w DestroyChallenge_call
              then (db, Inl (internalServerError ''Database error deleting challenge''))
              else (db\<lparr>DB_challenges :=
                        filter (\<lambda>x. Challenge_ID x \<noteq> Challenge_ID c) (DB_challenges db)\<rparr>,
                    Inl (badRequestError (Challenge_ID c @
                      '' has expired, verify against another challenge or create a new challenge.''))))"
    by (simp add: VerifyFactor_def Let_def Transaction_def Destroy_Challenge_def)
next
  assume early: "now w \<le> Challenge_CreatedAt c + 1000000000 * ChallengeExpiryDuration config"
    and totp: "Factor_FactorType (getFactor r) = TOTP"
    and code: "totp_Validate w (Code params) (Factor_Secret (getFactor r))"
    and nofail: "\<forall>call. \<not> fails w call"
    and user: "find (\<lambda>u. User_ID u = User_ID (getUser r)) (DB_users db) = Some u"
    and cookie: "setCookieTokens w (issueToken w u (Factor_ID (getFactor r))) = None"
  from early have fresh: "\<not> hasExpired w config c"
    using assms(7,8) by (simp add: hasExpired_def Seconds_exact)
  from nofail user cookie obtain db' where
    "VerifyFactor_tx w r (getUser r) (getFactor r) c db =
       Inr (db', issueToken w u (Factor_ID (getFactor r)))"
    using VerifyFactor_tx_succeeds[of w "getUser r" db u "getFactor r" r c] by auto
  with assms(1-6) fresh totp code
  have "VerifyFactor w config r db =
          (db', Inr (TokenJSON (issueToken w u (Factor_ID (getFactor r)))))"
    by (simp add: VerifyFactor_def Let_def Transaction_def TOTP_def)
  then show "\<exists>db'. VerifyFactor w config r db =
                    (db', Inr (TokenJSON (issueToken w u (Factor_ID (getFactor r)))))"
    by blast
qed

text \<open>
  Witness of C3. The challenge of time 0 expires after 300 seconds: at 301 seconds
  the right code gets the expiry error and the challenge is gone; at 100 seconds the
  right code gets the token.
\<close>

theorem VerifyFactor_expiry_witness:
  "VerifyFactor (world0\<lparr>now := 301000000000\<rparr>) config0 (verify_request ''123456'') db0
     = (db0\<lparr>DB_challenges := []\<rparr>,
        Inl (badRequestError
          ''c1 has expired, verify against another challenge or create a new challenge.''))
   \<and> snd (VerifyFactor world0 config0 (verify_request ''123456'') db0) = Inr (TokenJSON ''token'')"
proof -
  let ?r = "verify_request ''123456''"
  let ?params = "\<lparr>ChallengeID = ''c1'', Code = ''123456''\<rparr>"
  have late: "VerifyFactor (world0\<lparr>now := 301000000000\<rparr>) config0 ?r db0
     = (db0\<lparr>DB_challenges := []\<rparr>,
        Inl (badRequestError
          ''c1 has expired, verify against another challenge or create a new challenge.''))"
    using VerifyFactor_expiry[of ?r "''123456''" "world0\<lparr>now := 301000000000\<rparr>" ?params db0
        challenge1 config0 alice]
    by (simp add: example_defs FindChallengeByChallengeID_def)
  have "\<exists>db'. VerifyFactor world0 config0 ?r db0 = (db', Inr (TokenJSON ''token''))"
    using VerifyFactor_expiry[of ?r "''123456''" world0 ?params db0 challenge1 config0 alice]
    by (simp add: example_defs FindChallengeByChallengeID_def TOTP_def)
  then have "snd (VerifyFactor world0 config0 ?r db0) = Inr (TokenJSON ''token'')"
    by auto
  with late show ?thesis by simp
qed

text \<open>
  Counterexample of C3 as it is stated. At 301 seconds the challenge of time 0 has
  expired under the configured 300 seconds; a request from another address is answered
  with the address error, not with the expiry error, and the challenge is not deleted.
  And with 9223372037 configured seconds the product with the nanoseconds of a second
  wraps around to a negative duration: a request at 100 seconds with the right code, long
  before the creation time plus the configured duration, is answered with the expiry
  error and the challenge is deleted.
\<close>

theorem VerifyFactor_expired_challenge_kept_and_early_request_expired:
  "now (world0\<lparr>now := 301000000000\<rparr>)
      > Challenge_CreatedAt challenge1 + 1000000000 * ChallengeExpiryDuration config0
   \<and> VerifyFactor (world0\<lparr>now := 301000000000\<rparr>) config0
        ((verify_request ''123456'')\<lparr>GetIPAddress := ''10.9.9.9''\<rparr>) db0
     = (db0, Inl (badRequestError ''Challenge and verify IP addresses mismatch''))
   \<and> DB_challenges db0 = [challenge1]
   \<and> now world0 < Challenge_CreatedAt challenge1 + 1000000000 * 9223372037
   \<and> VerifyFactor world0 (config0\<lparr>ChallengeExpiryDuration := 9223372037\<rparr>)
        (verify_request ''123456'') db0
     = (db0\<lparr>DB_challenges := []\<rparr>,
        Inl (badRequestError
          ''c1 has expired, verify against another challenge or create a new challenge.''))"
  by (simp add: VerifyFactor_def Let_def example_defs storage_defs constant_defs)



section \<open>Unenrollment\<close>

text \<open>
  C8. Unenrolling a verified factor from a session whose level is below AAL2 fails
  with the error that asks for AAL2 and changes nothing. Otherwise a factor that the
  user does not own is refused, and for an owned factor one transaction deletes the
  factor row, appends the audit entry that carries the session id, and sets the
  sessions tied to the factor to AAL1; when one of the three storage calls fails, the
  call fails and nothing is kept.
\<close>

theorem UnenrollFactor_gated_transaction:
  "(Factor_Status (getFactor r) = FactorStateVerified \<longrightarrow>
      aal_less (Session_AAL (getSession r)) AAL2 \<longrightarrow>
      UnenrollFactor w r db =
        (db, Inl (badRequestError ''AAL2 required to unenroll verified factor'')))
   \<and> (\<not> (Factor_Status (getFactor r) = FactorStateVerified
           \<and> aal_less (Session_AAL (getSession r)) AAL2) \<longrightarrow>
      Factor_UserID (getFactor r) \<noteq> User_ID (getUser r) \<longrightarrow>
      UnenrollFactor w r db =
        (db, Inl (internalServerError ''user must own factor to unenroll'')))
   \<and> (\<not> (Factor_Status (getFactor r) = FactorStateVerified
           \<and> aal_less (Session_AAL (getSession r)) AAL2) \<longrightarrow>
      Factor_UserID (getFactor r) = User_ID (getUser r) \<longrightarrow>
      \<not> fails w DestroyFactor_call \<longrightarrow> \<not> fails w NewAuditLogEntry_call \<longrightarrow>
      \<not> fails w DowngradeSessionsToAAL1_call \<longrightarrow>
      UnenrollFactor w r db =
        (db\<lparr>DB_factors :=
               filter (\<lambda>x. Factor_ID x \<noteq> Factor_ID (getFactor r)) (DB_factors db),
            DB_audit_log := DB_audit_log db @
               [\<lparr>Audit_Actor = User_ID (getUser r), Audit_Action = UnenrollFactorAction,
                 Audit_IPAddress = RemoteAddr r,
                 Audit_Traits = [(''factor_id'', Factor_ID (getFactor r)),
                                 (''factor_status'', Factor_Status (getFactor r)),
                                 (''session_id'', Session_ID (getSession r))]\<rparr>],
            DB_sessions :=
               map (\<lambda>s. if Session_FactorID s = Some (Factor_ID (getFactor r))
                        then s\<lparr>Session_AAL := AAL1, Session_FactorID := None\<rparr> else s)
                   (DB_sessions db)\<rparr>,
         Inr (UnenrollFactorResponse (Factor_ID (getFactor r)))))
   \<and> (\<not> (Factor_Status (getFactor r) = FactorStateVerified
           \<and> aal_less (Session_AAL (getSession r)) AAL2) \<longrightarrow>
      Factor_UserID (getFactor r) = User_ID (getUser r) \<longrightarrow>
      (fails w DestroyFactor_call \<or> fails w NewAuditLogEntry_call
         \<or> fails w DowngradeSessionsToAAL1_call) \<longrightarrow>
      (\<exists>err. UnenrollFactor w r db = (db, Inl err)))"
proof -
  have below: "aal_less (Session_AAL (getSession r)) AAL2 = (Session_AAL (getSession r) \<noteq> AAL2)"
    by (cases "Session_AAL (getSession r)") (simp_all add: aal_less_def)
  show ?thesis
    unfolding below
    by (auto simp: UnenrollFactor_def Let_def Transaction_def andThen_def Destroy_Factor_def
        NewAuditLogEntry_def DowngradeSessionsToAAL1_def)
qed

text \<open>
  Witness of C8. The verified factor cannot be removed from the session at AAL1; from
  the session at AAL2 it is removed, the entry is written and that session, which was
  elevated by this factor, is back at AAL1.
\<close>

theorem UnenrollFactor_gated_transaction_witness:
  "UnenrollFactor world0
     ((verify_request [])\<lparr>getFactor := totp_factor\<lparr>Factor_Status := ''verified''\<rparr>\<rparr>)
     db_one_verified
     = (db_one_verified, Inl (badRequestError ''AAL2 required to unenroll verified factor''))
   \<and> UnenrollFactor world0
       ((verify_request [])\<lparr>getFactor := totp_factor\<lparr>Factor_Status := ''verified''\<rparr>,
                             getSession := session1\<lparr>Session_AAL := AAL2,
                                                     Session_FactorID := Some ''f1''\<rparr>\<rparr>)
       (db_one_verified\<lparr>DB_sessions :=
          [session1\<lparr>Session_AAL := AAL2, Session_FactorID := Some ''f1''\<rparr>, session3]\<rparr>)
     = (db_one_verified\<lparr>
          DB_factors := [bob_factor],
          DB_sessions := [session1, session3],
          DB_audit_log := [\<lparr>Audit_Actor = ''u1'', Audit_Action = UnenrollFactorAction,
                            Audit_IPAddress = ''10.0.0.1:4000'',
                            Audit_Traits = [(''factor_id'', ''f1''),
                                            (''factor_status'', ''verified''),
                                            (''session_id'', ''s1'')]\<rparr>]\<rparr>,
        Inr (UnenrollFactorResponse ''f1''))"
proof -
  let ?f = "totp_factor\<lparr>Factor_Status := ''verified''\<rparr>"
  let ?s = "session1\<lparr>Session_AAL := AAL2, Session_FactorID := Some ''f1''\<rparr>"
  have "UnenrollFactor world0 ((verify_request [])\<lparr>getFactor := ?f\<rparr>) db_one_verified
     = (db_one_verified, Inl (badRequestError ''AAL2 required to unenroll verified factor''))"
    using UnenrollFactor_gated_transaction[of "(verify_request [])\<lparr>getFactor := ?f\<rparr>"
        world0 db_one_verified]
    by (simp add: example_defs aal_less_def FactorStateVerified_def)
  moreover have "UnenrollFactor world0 ((verify_request [])\<lparr>getFactor := ?f, getSession := ?s\<rparr>)
       (db_one_verified\<lparr>DB_sessions := [?s, session3]\<rparr>)
     = (db_one_verified\<lparr>
          DB_factors := [bob_factor],
          DB_sessions := [session1, session3],
          DB_audit_log := [\<lparr>Audit_Actor = ''u1'', Audit_Action = UnenrollFactorAction,
                            Audit_IPAddress = ''10.0.0.1:4000'',
                            Audit_Traits = [(''factor_id'', ''f1''),
                                            (''factor_status'', ''verified''),
                                            (''session_id'', ''s1'')]\<rparr>]\<rparr>,
        Inr (UnenrollFactorResponse ''f1''))"
    using UnenrollFactor_gated_transaction[of
        "(verify_request [])\<lparr>getFactor := ?f, getSession := ?s\<rparr>"
        world0 "db_one_verified\<lparr>DB_sessions := [?s, session3]\<rparr>"]
    by (simp add: example_defs aal_less_def FactorStateVerified_def)
  ultimately show ?thesis by simp
qed

section \<open>Enrollment\<close>

text \<open>
  Both enrollment handlers read the factors of the user from storage and refuse, before
  anything is written, a user who already holds the configured maximum of enrolled
  factors; the TOTP handler also refuses a user who holds the configured maximum of
  verified factors.
\<close>

lemma EnrollWebAuthnFactor_error_keeps:
  "EnrollWebAuthnFactor w config r db = (db', Inl err) \<Longrightarrow> db' = db"
  by (auto simp: EnrollWebAuthnFactor_def Let_def Transaction_def
      split: if_splits option.splits sum.splits prod.splits)

lemma EnrollFactor_error_keeps:
  "EnrollFactor w config r db = (db', Inl err) \<Longrightarrow> db' = db"
  by (auto simp: EnrollFactor_def Let_def Transaction_def
      dest: EnrollWebAuthnFactor_error_keeps
      split: if_splits option.splits sum.splits prod.splits)

lemma EnrollFactor_totp_caps:
  assumes "getBodyBytes r = Some body" and "unmarshalEnroll w body = Some params"
    and "\<not> User_IsSSOUser (getUser r)" and "FactorType params = TOTP"
    and "Issuer params = [] \<longrightarrow> ParseRequestURI w (SiteURL config) \<noteq> None"
    and "\<not> fails w FindFactorsByUser_call"
    and "int (length (filter (\<lambda>f. Factor_UserID f = User_ID (getUser r)) (DB_factors db)))
           \<ge> MaxEnrolledFactors config
         \<or> int (length (filter (\<lambda>f. Factor_Status f = FactorStateVerified)
                  (filter (\<lambda>f. Factor_UserID f = User_ID (getUser r)) (DB_factors db))))
           \<ge> MaxVerifiedFactors config"
  shows "\<exists>msg. EnrollFactor w config r db = (db, Inl (forbiddenError msg))"
  using assms
  by (auto simp: EnrollFactor_def Let_def TOTP_def FindFactorsByUser_def
      numVerifiedFactors_count)

lemma EnrollWebAuthnFactor_enrolled_cap:
  assumes "EnrollWebAuthnFactor w config r db = (db', Inr resp)"
  shows "int (length (filter (\<lambda>f. Factor_UserID f = User_ID (getUser r)) (DB_factors db)))
           < MaxEnrolledFactors config
       \<and> \<not> (\<exists>f \<in> set (DB_factors db).
               Factor_UserID f = User_ID (getUser r) \<and> Factor_Status f = FactorStateVerified)"
proof -
  have count: "\<And>fs. (numVerifiedFactors 0 fs \<ge> 1) =
      (\<exists>f \<in> set fs. Factor_Status f = FactorStateVerified)"
  proof -
    fix fs :: "Factor list"
    have "(1 \<le> int (length (filter (\<lambda>f. Factor_Status f = FactorStateVerified) fs)))
        = (filter (\<lambda>f. Factor_Status f = FactorStateVerified) fs \<noteq> [])"
      by (cases "filter (\<lambda>f. Factor_Status f = FactorStateVerified) fs") simp_all
    then show "(numVerifiedFactors 0 fs \<ge> 1) =
        (\<exists>f \<in> set fs. Factor_Status f = FactorStateVerified)"
      by (simp add: numVerifiedFactors_count filter_empty_conv)
  qed
  from assms show ?thesis
    by (auto simp: EnrollWebAuthnFactor_def Let_def FindFactorsByUser_def count
        split: if_splits option.splits sum.splits prod.splits)
qed

text \<open>
  C6. The WebAuthn enrollment does not read the configured maximum of verified factors:
  its answer is the same for every value of that setting. The number it compares the
  verified factors with is the literal 1.
\<close>

theorem EnrollWebAuthnFactor_ignores_MaxVerifiedFactors:
  "EnrollWebAuthnFactor w (config\<lparr>MaxVerifiedFactors := n\<rparr>) r db
     = EnrollWebAuthnFactor w config r db"
  by (simp add: EnrollWebAuthnFactor_def Let_def split: option.splits sum.splits)

text \<open>
  Witness of C6. With a maximum of three verified factors, a user that holds one
  verified factor is refused a WebAuthn factor and granted a TOTP factor. With a
  maximum of zero, a user is granted a WebAuthn factor and refused a TOTP factor.
\<close>

theorem EnrollWebAuthnFactor_ignores_MaxVerifiedFactors_witness:
  "EnrollFactor world0 config0 (enroll_request ''webauthn'') db_one_verified
     = (db_one_verified,
        Inl (forbiddenError
          ''number of enrolled factors exceeds the allowed value, unenroll to continue''))
   \<and> snd (EnrollFactor world0 config0 (enroll_request ''totp'') db_one_verified)
     = Inr (EnrollFactorResponse ''n1'' ''totp''
              \<lparr>QRCode = ''svg'', Secret = ''NEWSECRET'', URI = ''otpauth://totp/x''\<rparr>)
   \<and> snd (EnrollFactor world0 (config0\<lparr>MaxVerifiedFactors := 0\<rparr>) (enroll_request ''webauthn'') db0)
     = Inr (FactorJSON \<lparr>Factor_ID = ''n1'', Factor_UserID = ''u1'', Factor_FriendlyName = ''key'',
              Factor_FactorType = ''webauthn'', Factor_Status = ''unverified'',
              Factor_Secret = []\<rparr>)
   \<and> length (DB_factors (fst (EnrollFactor world0 (config0\<lparr>MaxVerifiedFactors := 0\<rparr>)
               (enroll_request ''webauthn'') db0))) = 4
   \<and> EnrollFactor world0 (config0\<lparr>MaxVerifiedFactors := 0\<rparr>) (enroll_request ''totp'') db0
     = (db0, Inl (forbiddenError
          ''Maximum number of enrolled factors reached, unenroll to continue''))"
proof -
  have dispatch: "\<And>config db. EnrollFactor world0 config (enroll_request ''webauthn'') db
      = EnrollWebAuthnFactor world0 config (enroll_request ''webauthn'') db"
    by (simp add: EnrollFactor_def Let_def example_defs)
  have zero: "EnrollWebAuthnFactor world0 (config0\<lparr>MaxVerifiedFactors := 0\<rparr>)
        (enroll_request ''webauthn'') db0
      = EnrollWebAuthnFactor world0 config0 (enroll_request ''webauthn'') db0"
    by (rule EnrollWebAuthnFactor_ignores_MaxVerifiedFactors)
  have run: "EnrollWebAuthnFactor world0 config0 (enroll_request ''webauthn'') db0
     = (db0\<lparr>DB_factors := DB_factors db0 @
              [\<lparr>Factor_ID = ''n1'', Factor_UserID = ''u1'', Factor_FriendlyName = ''key'',
                Factor_FactorType = ''webauthn'', Factor_Status = ''unverified'',
                Factor_Secret = []\<rparr>],
            DB_sessions :=
              [session1\<lparr>WebauthnConfiguration := Some
                  \<lparr>RPDisplayName = ''Go Webauthn'', RPID = ''2175-203-116-4-74.ap.ngrok.io'',
                   RPOrigin = ''https://2175-203-116-4-74.ap.ngrok.io'',
                   RPIcon = ''https://go-webauthn.local/logo.png''\<rparr>\<rparr>, session2, session3],
            DB_audit_log := [\<lparr>Audit_Actor = ''u1'', Audit_Action = EnrollFactorAction,
                              Audit_IPAddress = ''10.0.0.1:4000'',
                              Audit_Traits = [(''factor_id'', ''n1'')]\<rparr>]\<rparr>,
        Inr (FactorJSON \<lparr>Factor_ID = ''n1'', Factor_UserID = ''u1'', Factor_FriendlyName = ''key'',
              Factor_FactorType = ''webauthn'', Factor_Status = ''unverified'',
              Factor_Secret = []\<rparr>))"
    by (simp add: EnrollWebAuthnFactor_def Let_def example_defs storage_defs constant_defs)
  have refused: "EnrollWebAuthnFactor world0 config0 (enroll_request ''webauthn'') db_one_verified
     = (db_one_verified,
        Inl (forbiddenError
          ''number of enrolled factors exceeds the allowed value, unenroll to continue''))"
    by (simp add: EnrollWebAuthnFactor_def Let_def example_defs storage_defs constant_defs)
  have totp: "snd (EnrollFactor world0 config0 (enroll_request ''totp'') db_one_verified)
     = Inr (EnrollFactorResponse ''n1'' ''totp''
              \<lparr>QRCode = ''svg'', Secret = ''NEWSECRET'', URI = ''otpauth://totp/x''\<rparr>)"
    by (simp add: EnrollFactor_def Let_def example_defs storage_defs constant_defs)
  have totp_zero: "EnrollFactor world0 (config0\<lparr>MaxVerifiedFactors := 0\<rparr>) (enroll_request ''totp'') db0
     = (db0, Inl (forbiddenError
          ''Maximum number of enrolled factors reached, unenroll to continue''))"
    by (simp add: EnrollFactor_def Let_def example_defs storage_defs constant_defs)
  have three: "length (DB_factors db0) = 3"
    by (simp add: db0_def)
  show ?thesis
    using refused totp totp_zero
    by (simp add: dispatch zero run three)
qed

text \<open>
  C9. The WebAuthn enrollment does not read the site URL of the configuration: its
  answer is the same for every value of that setting. When it succeeds, the factor it
  answers with has empty secret material and is a row of the factor table, and every
  row of the calling session holds what \<^verbatim>\<open>webauthn.New\<close> made of one fixed
  relying-party configuration, whose identifier and origin are literals of the handler.
\<close>

theorem EnrollWebAuthnFactor_relying_party_is_fixed:
  "EnrollWebAuthnFactor w (config\<lparr>SiteURL := url\<rparr>) r db = EnrollWebAuthnFactor w config r db
   \<and> (\<forall>db' resp. EnrollWebAuthnFactor w config r db = (db', Inr resp) \<longrightarrow>
        (\<exists>factor. resp = FactorJSON factor \<and> Factor_Secret factor = []
           \<and> Factor_Status factor = FactorStateUnverified
           \<and> DB_factors db' = DB_factors db @ [factor]
           \<and> DB_sessions db' =
               map (\<lambda>s. if Session_ID s = Session_ID (getSession r)
                        then s\<lparr>WebauthnConfiguration :=
                               webauthn_New w
                                 \<lparr>RPDisplayName = ''Go Webauthn'',
                                  RPID = ''2175-203-116-4-74.ap.ngrok.io'',
                                  RPOrigin = ''https://2175-203-116-4-74.ap.ngrok.io'',
                                  RPIcon = ''https://go-webauthn.local/logo.png''\<rparr>\<rparr>
                        else s) (DB_sessions db)))"
  by (auto simp: EnrollWebAuthnFactor_def Let_def Transaction_def andThen_def Create_Factor_def
      UpdateWebauthnConfiguration_def update_session_def NewAuditLogEntry_def NewFactor_def
      split: if_splits option.splits sum.splits prod.splits)

text \<open>
  Witness of C9. The service is configured for example.com; the session of the
  enrolling user ends up with the relying party of the tunnel host.
\<close>

theorem EnrollWebAuthnFactor_relying_party_is_fixed_witness:
  "SiteURL config0 = ''https://example.com''
   \<and> map WebauthnConfiguration
       (DB_sessions (fst (EnrollWebAuthnFactor world0 config0 (enroll_request ''webauthn'') db0)))
     = [Some \<lparr>RPDisplayName = ''Go Webauthn'', RPID = ''2175-203-116-4-74.ap.ngrok.io'',
              RPOrigin = ''https://2175-203-116-4-74.ap.ngrok.io'',
              RPIcon = ''https://go-webauthn.local/logo.png''\<rparr>, None, None]
   \<and> EnrollWebAuthnFactor world0 (config0\<lparr>SiteURL := ''https://other.example.org''\<rparr>)
       (enroll_request ''webauthn'') db0
     = EnrollWebAuthnFactor world0 config0 (enroll_request ''webauthn'') db0"
  using EnrollWebAuthnFactor_relying_party_is_fixed[where w = world0 and config = config0
      and url = "''https://other.example.org''" and r = "enroll_request ''webauthn''"
      and db = db0]
  by (simp add: EnrollWebAuthnFactor_def Let_def example_defs storage_defs constant_defs)

section \<open>WebAuthn ceremonies\<close>

text \<open>
  C4. The rule by which \<open>ChallengeWebAuthnFactor\<close> chooses the ceremony: a session
  without registration ceremony data begins a login ceremony and stores its data as the
  login data of the session; a session with registration ceremony data begins a
  registration ceremony and stores its data as the registration data of the session
  (and only then creates the challenge row and the audit entry).
\<close>

theorem ChallengeWebAuthnFactor_ceremony_choice:
  assumes "mapstructure_Decode w (WebauthnConfiguration (getSession r)) = Some web"
  shows "(WebauthnRegistrationSession (getSession r) = None \<longrightarrow>
           BeginLogin w web (getUser r) = Some (options, sessionData) \<longrightarrow>
           ChallengeWebAuthnFactor w r db =
             ((if fails w UpdateWebauthnLoginSession_call then db
               else db\<lparr>DB_sessions :=
                      map (\<lambda>s. if Session_ID s = Session_ID (getSession r)
                               then s\<lparr>WebauthnLoginSession := Some sessionData\<rparr> else s)
                          (DB_sessions db)\<rparr>),
              Inr (OptionsJSON options)))
       \<and> (WebauthnRegistrationSession (getSession r) \<noteq> None \<longrightarrow>
           BeginRegistration w web (getUser r) = Some (options, sessionData) \<longrightarrow>
           (\<forall>call. \<not> fails w call) \<longrightarrow> NewV4 w = Some i \<longrightarrow>
           ChallengeWebAuthnFactor w r db =
             (db\<lparr>DB_sessions :=
                    map (\<lambda>s. if Session_ID s = Session_ID (getSession r)
                             then s\<lparr>WebauthnRegistrationSession := Some sessionData\<rparr> else s)
                        (DB_sessions db),
                 DB_challenges := DB_challenges db @
                    [\<lparr>Challenge_ID = i, Challenge_FactorID = Factor_ID (getFactor r),
                      Challenge_IPAddress = GetIPAddress r, Challenge_CreatedAt = now w,
                      Challenge_VerifiedAt = None\<rparr>],
                 DB_audit_log := DB_audit_log db @
                    [\<lparr>Audit_Actor = User_ID (getUser r), Audit_Action = CreateChallengeAction,
                      Audit_IPAddress = RemoteAddr r,
                      Audit_Traits = [(''factor_id'', Factor_ID (getFactor r)),
                                      (''factor_status'', Factor_Status (getFactor r))]\<rparr>]\<rparr>,
              Inr (OptionsJSON options)))"
  using assms
  by (auto simp: ChallengeWebAuthnFactor_def Let_def Transaction_def andThen_def
      UpdateWebauthnLoginSession_def UpdateWebauthnRegistrationSession_def update_session_def
      Create_Challenge_def NewAuditLogEntry_def NewChallenge_def)

text \<open>
  Witness of C4. A first challenge on a fresh WebAuthn factor, from a session without
  ceremony data, is answered with the options of a login ceremony; with registration
  data on the session the answer is the options of a new registration ceremony.
\<close>

theorem ChallengeWebAuthnFactor_ceremony_choice_witness:
  "ChallengeFactor world0 config0 (webauthn_request None None) db0
     = (db0\<lparr>DB_sessions := [session1\<lparr>WebauthnLoginSession := Some ''login-data''\<rparr>,
                              session2, session3]\<rparr>,
        Inr (OptionsJSON ''login-options''))
   \<and> snd (ChallengeFactor world0 config0 (webauthn_request (Some ''registration-data'') None) db0)
     = Inr (OptionsJSON ''registration-options'')"
proof -
  have dispatch: "\<And>reg. ChallengeFactor world0 config0 (webauthn_request reg None) db0
      = ChallengeWebAuthnFactor world0 (webauthn_request reg None) db0"
    by (simp add: ChallengeFactor_def Let_def example_defs NewChallenge_def)
  have "ChallengeWebAuthnFactor world0 (webauthn_request None None) db0
     = (db0\<lparr>DB_sessions := [session1\<lparr>WebauthnLoginSession := Some ''login-data''\<rparr>,
                              session2, session3]\<rparr>,
        Inr (OptionsJSON ''login-options''))"
    using ChallengeWebAuthnFactor_ceremony_choice[where w = world0
        and r = "webauthn_request None None" and web = site_webauthn
        and options = "''login-options''" and sessionData = "''login-data''" and db = db0]
    by (simp add: example_defs)
  moreover have "snd (ChallengeWebAuthnFactor world0
        (webauthn_request (Some ''registration-data'') None) db0)
     = Inr (OptionsJSON ''registration-options'')"
    using ChallengeWebAuthnFactor_ceremony_choice[where w = world0
        and r = "webauthn_request (Some ''registration-data'') None" and web = site_webauthn
        and options = "''registration-options''" and sessionData = "''registration-data''"
        and db = db0 and i = "''n1''"]
    by (simp add: example_defs)
  ultimately show ?thesis by (simp add: dispatch)
qed

text \<open>
  C7. In the branch of \<open>ChallengeWebAuthnFactor\<close> taken by a session without
  registration ceremony data, no challenge row is created and no audit entry is
  written, whatever the collaborators answer: the branch returns the options right after
  storing the ceremony data.
\<close>

theorem ChallengeWebAuthnFactor_login_branch_creates_nothing:
  assumes "WebauthnRegistrationSession (getSession r) = None"
  shows "DB_challenges (fst (ChallengeWebAuthnFactor w r db)) = DB_challenges db
       \<and> DB_audit_log (fst (ChallengeWebAuthnFactor w r db)) = DB_audit_log db"
  using assms
  by (auto simp: ChallengeWebAuthnFactor_def Let_def Transaction_def andThen_def
      UpdateWebauthnLoginSession_def update_session_def
      split: option.splits prod.splits)

text \<open>
  Witness of C7. The challenge on the WebAuthn factor succeeds and leaves one
  challenge and an empty audit log; the challenge on the TOTP factor leaves two
  challenges and an audit entry.
\<close>

theorem ChallengeWebAuthnFactor_login_branch_creates_nothing_witness:
  "snd (ChallengeWebAuthnFactor world0 (webauthn_request None None) db0)
     = Inr (OptionsJSON ''login-options'')
   \<and> DB_challenges (fst (ChallengeWebAuthnFactor world0 (webauthn_request None None) db0))
     = [challenge1]
   \<and> DB_audit_log (fst (ChallengeWebAuthnFactor world0 (webauthn_request None None) db0)) = []
   \<and> snd (ChallengeFactor world0 config0 (verify_request []) db0)
     = Inr (ChallengeFactorResponse ''n1'' 400)
   \<and> map Challenge_ID (DB_challenges (fst (ChallengeFactor world0 config0 (verify_request []) db0)))
     = [''c1'', ''n1'']
   \<and> map Audit_Action (DB_audit_log (fst (ChallengeFactor world0 config0 (verify_request []) db0)))
     = [CreateChallengeAction]"
proof -
  have "DB_challenges (fst (ChallengeWebAuthnFactor world0 (webauthn_request None None) db0))
          = [challenge1]
      \<and> DB_audit_log (fst (ChallengeWebAuthnFactor world0 (webauthn_request None None) db0)) = []"
    using ChallengeWebAuthnFactor_login_branch_creates_nothing[of "webauthn_request None None"
        world0 db0]
    by (simp add: webauthn_request_def db0_def)
  moreover have "snd (ChallengeWebAuthnFactor world0 (webauthn_request None None) db0)
     = Inr (OptionsJSON ''login-options'')"
    by (simp add: ChallengeWebAuthnFactor_def Let_def example_defs storage_defs)
  moreover have "snd (ChallengeFactor world0 config0 (verify_request []) db0)
     = Inr (ChallengeFactorResponse ''n1'' 400)
   \<and> map Challenge_ID (DB_challenges (fst (ChallengeFactor world0 config0 (verify_request []) db0)))
     = [''c1'', ''n1'']
   \<and> map Audit_Action (DB_audit_log (fst (ChallengeFactor world0 config0 (verify_request []) db0)))
     = [CreateChallengeAction]"
    by (simp add: ChallengeFactor_def Let_def example_defs storage_defs constant_defs)
  ultimately show ?thesis by simp
qed

text \<open>
  C5. \<open>VerifyWebAuthnFactor\<close> never writes to the database, so no public key is bound
  to the factor; its answer does not depend on the registration or login ceremony data
  the session holds, only on whether there is any, because the library is handed the
  empty ceremony state; and its answer does not depend on what the validation of the
  login answers, because that result is dropped. Its answer is always an error: in
  either ceremony branch it parses the body a second time, from the drained stream, so
  neither the creation of a credential nor the validation of a login is ever completed.
\<close>

theorem VerifyWebAuthnFactor_ignores_ceremony_state:
  "fst (VerifyWebAuthnFactor w r db) = db
   \<and> VerifyWebAuthnFactor w
        (r\<lparr>getSession := (getSession r)\<lparr>WebauthnRegistrationSession := Some stored\<rparr>\<rparr>) db
     = VerifyWebAuthnFactor w
        (r\<lparr>getSession := (getSession r)\<lparr>WebauthnRegistrationSession := Some other\<rparr>\<rparr>) db
   \<and> VerifyWebAuthnFactor w
        (r\<lparr>getSession := (getSession r)\<lparr>WebauthnLoginSession := Some stored\<rparr>\<rparr>) db
     = VerifyWebAuthnFactor w
        (r\<lparr>getSession := (getSession r)\<lparr>WebauthnLoginSession := Some other\<rparr>\<rparr>) db
   \<and> VerifyWebAuthnFactor (w\<lparr>ValidateLogin := validate\<rparr>) r db = VerifyWebAuthnFactor w r db
   \<and> (\<exists>err. snd (VerifyWebAuthnFactor w r db) = Inl err)"
  by (simp add: VerifyWebAuthnFactor_def Let_def parse_Body_def split: option.splits prod.splits)

text \<open>
  Witness of C5. With a registration in progress the call ends at the second parse of
  the body, with a login in progress likewise, and without a ceremony it asks for one.
  Nothing is stored: the factor keeps its empty secret material.
\<close>

theorem VerifyWebAuthnFactor_ignores_ceremony_state_witness:
  "VerifyWebAuthnFactor world0 (webauthn_request (Some ''registration-data'') None)
      (db0\<lparr>DB_factors := webauthn_factor # DB_factors db0\<rparr>)
     = (db0\<lparr>DB_factors := webauthn_factor # DB_factors db0\<rparr>,
        Inl (EngineError ''ParseCredentialCreationResponseBody''))
   \<and> Factor_Secret webauthn_factor = []
   \<and> VerifyWebAuthnFactor world0 (webauthn_request None (Some ''login-data'')) db0
     = (db0, Inl (EngineError ''ParseCredentialRequestResponseBody''))
   \<and> VerifyWebAuthnFactor world0 (webauthn_request None None) db0
     = (db0, Inl (internalServerError ''Please initiate a webauthn session''))"
proof -
  let ?db = "db0\<lparr>DB_factors := webauthn_factor # DB_factors db0\<rparr>"
  have "fst (VerifyWebAuthnFactor world0 (webauthn_request (Some ''registration-data'') None) ?db)
          = ?db"
    and "fst (VerifyWebAuthnFactor world0 (webauthn_request None (Some ''login-data'')) db0) = db0"
    and "fst (VerifyWebAuthnFactor world0 (webauthn_request None None) db0) = db0"
    using VerifyWebAuthnFactor_ignores_ceremony_state by blast+
  moreover have "snd (VerifyWebAuthnFactor world0
        (webauthn_request (Some ''registration-data'') None) ?db)
      = Inl (EngineError ''ParseCredentialCreationResponseBody'')"
    and "snd (VerifyWebAuthnFactor world0 (webauthn_request None (Some ''login-data'')) db0)
      = Inl (EngineError ''ParseCredentialRequestResponseBody'')"
    and "snd (VerifyWebAuthnFactor world0 (webauthn_request None None) db0)
      = Inl (internalServerError ''Please initiate a webauthn session'')"
    and "Factor_Secret webauthn_factor = []"
    by (simp_all add: VerifyWebAuthnFactor_def Let_def parse_Body_def example_defs)
  ultimately show ?thesis by (simp add: prod_eq_iff)
qed

end
